theory Spec2Isabelle
  imports Complex_Main "HOL-Library.Word" "HOL-Library.Signed_Division"
begin

unbundle bit_operations_syntax

section \<open>GLWebViewState: data model\<close>

text \<open>
  The embedding follows \<^verbatim>\<open>Source/WebCore/platform/graphics/android/GLWebViewState.cpp\<close>.
  C++ \<^verbatim>\<open>int\<close> values are modelled as \<^typ>\<open>int\<close>: the model agrees with the code on
  every run without signed overflow (which is undefined behaviour in C++). The halving
  \<^verbatim>\<open>maxTextures /= 2\<close> truncates towards zero and is written with \<open>sdiv\<close>.
  \<^verbatim>\<open>float\<close> values (\<^verbatim>\<open>SkScalar\<close>, the scale) are modelled by the real number they
  denote; only comparisons of such values are used, never rounded arithmetic.
\<close>

subsection \<open>Rendering modes\<close>

text \<open>
  Modelled from the spec: the declaration of \<^verbatim>\<open>enum LayersRenderingMode\<close> lives in
  GLWebViewState.h, which is not among the sources. The spec orders the modes from richest
  to coarsest, and the table of mode names indexed by the enumeration value in
  \<^verbatim>\<open>setLayersRenderingMode\<close> (lines 277-278) gives the same numbering.
\<close>

datatype LayersRenderingMode =
    kAllTextures
  | kClippedTextures
  | kScrollableAndFixedLayers
  | kFixedLayers
  | kSingleSurfaceRendering

fun modeValue :: "LayersRenderingMode \<Rightarrow> int" where
  "modeValue kAllTextures = 0"
| "modeValue kClippedTextures = 1"
| "modeValue kScrollableAndFixedLayers = 2"
| "modeValue kFixedLayers = 3"
| "modeValue kSingleSurfaceRendering = 4"

subsection \<open>Texture demand\<close>

record TexturesResult =
  fixed :: int
  scrollable :: int
  clipped :: int
  full :: int

subsection \<open>Rectangles\<close>

text \<open>
  Modelled from the spec: \<^verbatim>\<open>IntRect\<close> (WebCore/platform/graphics/IntRect.h) is not among
  the sources. It is the axis-aligned integer rectangle of the spec's DirtyRegion, held as
  origin and size; a rectangle is empty when its width or its height is not positive;
  \<open>inflate\<close> outsets by a margin on every side; \<open>unite\<close> is the bounding box of two
  rectangles and ignores an empty operand; \<open>intersects\<close> holds for two non-empty
  rectangles that overlap; \<open>intersect\<close> is the common part, the zero rectangle when there
  is none.
\<close>

record IntRect =
  ir_x :: int
  ir_y :: int
  ir_width :: int
  ir_height :: int

definition zeroRect :: IntRect where
  "zeroRect = \<lparr>ir_x = 0, ir_y = 0, ir_width = 0, ir_height = 0\<rparr>"

definition ir_maxX :: "IntRect \<Rightarrow> int" where
  "ir_maxX r = ir_x r + ir_width r"

definition ir_maxY :: "IntRect \<Rightarrow> int" where
  "ir_maxY r = ir_y r + ir_height r"

definition ir_isEmpty :: "IntRect \<Rightarrow> bool" where
  "ir_isEmpty r = (ir_width r \<le> 0 \<or> ir_height r \<le> 0)"

definition inflate :: "int \<Rightarrow> IntRect \<Rightarrow> IntRect" where
  "inflate d r = \<lparr>ir_x = ir_x r - d, ir_y = ir_y r - d,
                  ir_width = ir_width r + 2 * d, ir_height = ir_height r + 2 * d\<rparr>"

definition unite :: "IntRect \<Rightarrow> IntRect \<Rightarrow> IntRect" where
  "unite r other =
     (if ir_isEmpty other then r
      else if ir_isEmpty r then other
      else let l = min (ir_x r) (ir_x other);
               t = min (ir_y r) (ir_y other);
               rt = max (ir_maxX r) (ir_maxX other);
               b = max (ir_maxY r) (ir_maxY other)
           in \<lparr>ir_x = l, ir_y = t, ir_width = rt - l, ir_height = b - t\<rparr>)"

definition intersects :: "IntRect \<Rightarrow> IntRect \<Rightarrow> bool" where
  "intersects r other =
     (\<not> ir_isEmpty r \<and> \<not> ir_isEmpty other
      \<and> ir_x r < ir_maxX other \<and> ir_x other < ir_maxX r
      \<and> ir_y r < ir_maxY other \<and> ir_y other < ir_maxY r)"

definition intersect :: "IntRect \<Rightarrow> IntRect \<Rightarrow> IntRect" where
  "intersect r other =
     (let l = max (ir_x r) (ir_x other);
          t = max (ir_y r) (ir_y other);
          rt = min (ir_maxX r) (ir_maxX other);
          b = min (ir_maxY r) (ir_maxY other)
      in if l \<ge> rt \<or> t \<ge> b then zeroRect
         else \<lparr>ir_x = l, ir_y = t, ir_width = rt - l, ir_height = b - t\<rparr>)"

text \<open>
  \<^verbatim>\<open>SkRect\<close> is Skia's rectangle of four scalars. \<^verbatim>\<open>operator==\<close> compares the four
  edges, \<^verbatim>\<open>operator!=\<close> is its negation (equality and disequality of records here);
  \<^verbatim>\<open>isEmpty\<close> holds when left >= right or top >= bottom; \<^verbatim>\<open>SkRect::Intersects\<close> holds
  for two non-empty rectangles whose edges overlap strictly.
\<close>

record SkRect =
  fLeft :: real
  fTop :: real
  fRight :: real
  fBottom :: real

definition sk_setEmpty :: SkRect where
  "sk_setEmpty = \<lparr>fLeft = 0, fTop = 0, fRight = 0, fBottom = 0\<rparr>"

definition sk_isEmpty :: "SkRect \<Rightarrow> bool" where
  "sk_isEmpty r = (fLeft r \<ge> fRight r \<or> fTop r \<ge> fBottom r)"

definition sk_Intersects :: "SkRect \<Rightarrow> SkRect \<Rightarrow> bool" where
  "sk_Intersects a b =
     (\<not> sk_isEmpty a \<and> \<not> sk_isEmpty b
      \<and> fLeft a < fRight b \<and> fLeft b < fRight a
      \<and> fTop a < fBottom b \<and> fTop b < fBottom a)"

subsection \<open>The state object\<close>

text \<open>
  The fields of the class that the operations below read or write. The diagnostic
  overlay's private timing fields and the collaborators owned by the object (surface
  collection manager, GL extras) are outside the model; what the collaborators answer
  during a call is an explicit argument of the operation that asks.
\<close>

record GLWebViewState =
  m_frameworkLayersInval :: IntRect
  m_isScrolling :: bool
  m_isViewportScrolling :: bool
  m_goingDown :: bool
  m_goingLeft :: bool
  m_scale :: real
  m_viewport :: SkRect
  m_layersRenderingMode :: LayersRenderingMode

text \<open>The constructor (lines 65-85).\<close>

definition GLWebViewState_new :: GLWebViewState where
  "GLWebViewState_new =
     \<lparr>m_frameworkLayersInval = \<lparr>ir_x = 0, ir_y = 0, ir_width = 0, ir_height = 0\<rparr>,
      m_isScrolling = False,
      m_isViewportScrolling = False,
      m_goingDown = True,
      m_goingLeft = False,
      m_scale = 1,
      m_viewport = sk_setEmpty,
      m_layersRenderingMode = kAllTextures\<rparr>"

section \<open>Operations\<close>

subsection \<open>setBaseLayer, scrollLayer (lines 95-124)\<close>

text \<open>
  The layer pointer is an option (\<open>None\<close> is the null pointer). The answer of
  \<^verbatim>\<open>updateWithSurfaceCollection\<close> is the argument \<open>queueFull\<close>; it is returned as it is.
\<close>

definition setBaseLayer ::
  "GLWebViewState \<Rightarrow> 'layer option \<Rightarrow> bool \<Rightarrow> bool \<Rightarrow> bool \<Rightarrow> GLWebViewState \<times> bool" where
  "setBaseLayer s layer showVisualIndicator isPictureAfterFirstLayout queueFull =
     (let s1 = (if layer = None \<or> isPictureAfterFirstLayout
                then s\<lparr>m_layersRenderingMode := kAllTextures\<rparr> else s)
      in (s1, queueFull))"

definition scrollLayer :: "GLWebViewState \<Rightarrow> int \<Rightarrow> int \<Rightarrow> int \<Rightarrow> GLWebViewState" where
  "scrollLayer s layerId x y = s"

subsection \<open>setViewport (lines 126-159)\<close>

text \<open>
  The texture ceiling computed from the viewport is pushed to the tile manager and is not
  part of this object's state; the model keeps the part of the function that writes the
  object's own fields.
\<close>

definition setViewport :: "GLWebViewState \<Rightarrow> SkRect \<Rightarrow> real \<Rightarrow> GLWebViewState" where
  "setViewport s viewport scale =
     (if m_viewport s = viewport \<and> m_scale s = scale
      then s\<lparr>m_isViewportScrolling := False\<rparr>
      else s\<lparr>m_scale := scale,
              m_goingDown := (fTop (m_viewport s) - fTop viewport \<le> 0),
              m_goingLeft := (fLeft (m_viewport s) - fLeft viewport \<ge> 0),
              m_isViewportScrolling :=
                 (m_viewport s \<noteq> viewport \<and> sk_Intersects (m_viewport s) viewport),
              m_viewport := viewport\<rparr>)"

subsection \<open>addDirtyArea, resetLayersDirtyArea (lines 174-193)\<close>

definition addDirtyArea :: "GLWebViewState \<Rightarrow> IntRect \<Rightarrow> GLWebViewState" where
  "addDirtyArea s rect =
     (if ir_isEmpty rect then s
      else let inflatedRect = inflate 8 rect
           in if ir_isEmpty (m_frameworkLayersInval s)
              then s\<lparr>m_frameworkLayersInval := inflatedRect\<rparr>
              else s\<lparr>m_frameworkLayersInval := unite (m_frameworkLayersInval s) inflatedRect\<rparr>)"

definition resetLayersDirtyArea :: "GLWebViewState \<Rightarrow> GLWebViewState" where
  "resetLayersDirtyArea s =
     s\<lparr>m_frameworkLayersInval :=
         (m_frameworkLayersInval s)\<lparr>ir_x := 0, ir_y := 0, ir_width := 0, ir_height := 0\<rparr>\<rparr>"

subsection \<open>setupDrawing (lines 195-234)\<close>

text \<open>
  The GL resources and the GL viewport belong to the shader and the graphics context. On
  this object the function runs \<open>setViewport\<close> with the visible rectangle and returns the
  clock value read before it, here the argument \<open>currentTime\<close>.
\<close>

definition setupDrawing ::
  "GLWebViewState \<Rightarrow> SkRect \<Rightarrow> real \<Rightarrow> real \<Rightarrow> GLWebViewState \<times> real" where
  "setupDrawing s visibleRect scale currentTime =
     (setViewport s visibleRect scale, currentTime)"

subsection \<open>setLayersRenderingMode (lines 236-299)\<close>

text \<open>
  The tile manager is a collaborator whose code is not among the sources. The ceiling the
  function asks for is \<open>requestedMaxLayerTextureCount\<close>; the value that
  \<^verbatim>\<open>maxLayerTextureCount()\<close> then returns is the argument \<open>readBack\<close>, any integer.
\<close>

definition requestedMaxLayerTextureCount :: "TexturesResult \<Rightarrow> int" where
  "requestedMaxLayerTextureCount nbTexturesNeeded =
     (if full nbTexturesNeeded = 0 then 0 else 2 * full nbTexturesNeeded + 1)"

text \<open>Lines 245-252: the budget used by the tests.\<close>

definition maxTexturesForTests :: "LayersRenderingMode \<Rightarrow> int \<Rightarrow> int" where
  "maxTexturesForTests layersRenderingMode readBack =
     (if layersRenderingMode = kSingleSurfaceRendering then readBack sdiv 2 else readBack)"

text \<open>Lines 254-265: the mode before the clamp, one assignment after the other.\<close>

definition candidateMode :: "int \<Rightarrow> TexturesResult \<Rightarrow> LayersRenderingMode" where
  "candidateMode maxTextures nbTexturesNeeded =
     (let m0 = kSingleSurfaceRendering;
          m1 = (if fixed nbTexturesNeeded < maxTextures then kFixedLayers else m0);
          m2 = (if scrollable nbTexturesNeeded < maxTextures
                then kScrollableAndFixedLayers else m1);
          m3 = (if clipped nbTexturesNeeded < maxTextures then kClippedTextures else m2);
          m4 = (if full nbTexturesNeeded < maxTextures then kAllTextures else m3);
          m5 = (if maxTextures = 0 \<and> full nbTexturesNeeded = 0 then kAllTextures else m4)
      in m5)"

text \<open>Lines 267-273.\<close>

definition invalBaseFor :: "LayersRenderingMode \<Rightarrow> LayersRenderingMode \<Rightarrow> bool" where
  "invalBaseFor layersRenderingMode candidate =
     (let b0 = False;
          b1 = (if modeValue candidate < modeValue layersRenderingMode
                   \<and> candidate \<noteq> kAllTextures then True else b0);
          b2 = (if modeValue candidate > modeValue layersRenderingMode
                   \<and> candidate \<noteq> kClippedTextures then True else b1)
      in b2)"

text \<open>Lines 293-294.\<close>

definition clampMode :: "LayersRenderingMode \<Rightarrow> LayersRenderingMode" where
  "clampMode candidate =
     (if modeValue candidate > modeValue kClippedTextures
      then kSingleSurfaceRendering else candidate)"

definition setLayersRenderingMode ::
  "int \<Rightarrow> GLWebViewState \<Rightarrow> TexturesResult \<Rightarrow> GLWebViewState \<times> bool" where
  "setLayersRenderingMode readBack s nbTexturesNeeded =
     (let layersRenderingMode = m_layersRenderingMode s;
          maxTextures = maxTexturesForTests layersRenderingMode readBack;
          candidate = candidateMode maxTextures nbTexturesNeeded;
          invalBase = invalBaseFor layersRenderingMode candidate;
          committed = clampMode candidate
      in (s\<lparr>m_layersRenderingMode := committed\<rparr>,
          committed \<noteq> layersRenderingMode \<and> invalBase))"

subsection \<open>drawGL (lines 301-410)\<close>

text \<open>
  The status bits come from the Android framework header
  \<^verbatim>\<open>private/hwui/DrawGlInfo.h\<close>: \<^verbatim>\<open>kStatusDraw = 0x1\<close>, \<^verbatim>\<open>kStatusInvoke = 0x2\<close>.
  The flags are a 32-bit word.
\<close>

definition kStatusDraw :: "32 word" where
  "kStatusDraw = 1"

definition kStatusInvoke :: "32 word" where
  "kStatusInvoke = 2"

text \<open>Lines 50-52 and the test of lines 326 and 341.\<close>

definition scaleOutOfRange :: "real \<Rightarrow> bool" where
  "scaleOutOfRange scale = (scale < 1 / 10 \<or> scale > 10)"

text \<open>
  What the collaborators answer during one call: the result of
  \<^verbatim>\<open>ImagesManager::prepareTextures\<close>, the clock, the flags, swap results and demand
  filled in by \<^verbatim>\<open>SurfaceCollectionManager::drawGL\<close>, the image texture count, the
  ceiling read back from the tile manager, and the rectangles reported through
  \<open>addDirtyArea\<close> while the image manager and the surface collections run (both are
  handed this object).
\<close>

record DrawEnv =
  env_prepareTextures :: bool
  env_imagesDirty :: "IntRect list"
  env_currentTime :: real
  env_collectionFlags :: "32 word"
  env_layersDirty :: "IntRect list"
  env_nbTexturesNeeded :: TexturesResult
  env_collectionsSwapped :: bool
  env_newCollectionHasAnim :: bool
  env_nbTexturesForImages :: int
  env_maxLayerTextureCount :: int

text \<open>
  The calls and warnings of one run, in program order. Verbose logging is compiled out
  (\<^verbatim>\<open>LOG_NDEBUG 1\<close>) and leaves no event.
\<close>

datatype Event =
    EvProfilerNextFrame
  | EvIncDrawGLCount
  | EvResetLayersDirtyArea
  | EvWarnScaleBeforeUpdate
  | EvUpdateDirtyTiles
  | EvPrepareTextures
  | EvAddDirtyArea IntRect
  | EvWarnScaleAfterUpdate
  | EvCrash
  | EvGatherTextures
  | EvSetupDrawing
  | EvCollectionDrawGL bool
  | EvSetLayersRenderingMode
  | EvGlBindBuffer
  | EvDeleteUnusedTextures
  | EvShowFrameInfo

record DrawResult =
  dr_state :: GLWebViewState
  dr_returnFlags :: "32 word"
  dr_invalRect :: IntRect
  dr_collectionsSwapped :: bool
  dr_newCollectionHasAnim :: bool
  dr_events :: "Event list"

datatype DrawOutcome =
    is_Crashed: Crashed (crashEvents: "Event list")
  | is_Returned: Returned (returned: DrawResult)

fun outcomeEvents :: "DrawOutcome \<Rightarrow> Event list" where
  "outcomeEvents (Crashed evs) = evs"
| "outcomeEvents (Returned r) = dr_events r"

definition addDirtyAreas :: "GLWebViewState \<Rightarrow> IntRect list \<Rightarrow> GLWebViewState" where
  "addDirtyAreas s rects = foldl addDirtyArea s rects"

text \<open>
  Lines 307-344: profiling, the reset of the dirty region, the two scale checks around the
  tile and image uploads. \<^verbatim>\<open>CRASH()\<close> ends the run: the result is \<open>Inl\<close> with the
  events so far.
\<close>

definition drawGL_update ::
  "GLWebViewState \<Rightarrow> DrawEnv \<Rightarrow> real \<Rightarrow> bool
     \<Rightarrow> Event list + (GLWebViewState \<times> 32 word \<times> Event list)" where
  "drawGL_update s env scale shouldDraw =
     (let ev0 = (if shouldDraw then [EvProfilerNextFrame] else []) @ [EvIncDrawGLCount];
          s1 = resetLayersDirtyArea s;
          ev1 = ev0 @ [EvResetLayersDirtyArea];
          ev2 = (if scaleOutOfRange scale then ev1 @ [EvWarnScaleBeforeUpdate] else ev1);
          ev3 = ev2 @ [EvUpdateDirtyTiles];
          returnFlags0 = (0 :: 32 word);
          s2 = addDirtyAreas s1 (env_imagesDirty env);
          ev4 = ev3 @ [EvPrepareTextures] @ map EvAddDirtyArea (env_imagesDirty env);
          returnFlags1 = (if env_prepareTextures env then returnFlags0 OR kStatusDraw
                          else returnFlags0)
      in if scaleOutOfRange scale
         then Inl (ev4 @ [EvWarnScaleAfterUpdate, EvCrash])
         else Inr (s2, returnFlags1, ev4))"

text \<open>
  Lines 375-404, run when the draw bit is set: the new dirty region and the new value of
  the out-rectangle.
\<close>

definition invalAfterDraw :: "IntRect \<Rightarrow> IntRect \<Rightarrow> IntRect \<Rightarrow> IntRect \<times> IntRect" where
  "invalAfterDraw frameworkLayersInval rect invalRect =
     (let fullScreenInval = ir_isEmpty frameworkLayersInval;
          inval1 = (if \<not> fullScreenInval then inflate 1 frameworkLayersInval
                    else frameworkLayersInval);
          invalRect1 = (if \<not> fullScreenInval
                        then invalRect\<lparr>ir_x := ir_x inval1, ir_y := ir_y inval1,
                               ir_width := ir_width inval1, ir_height := ir_height inval1\<rparr>
                        else invalRect);
          fullScreenInval1 = (if \<not> fullScreenInval \<and> \<not> intersects invalRect1 rect
                              then True else fullScreenInval);
          invalRect2 = (if fullScreenInval1
                        then invalRect1\<lparr>ir_x := 0, ir_y := 0, ir_width := 0, ir_height := 0\<rparr>
                        else invalRect1)
      in (inval1, invalRect2))"

text \<open>
  Lines 346-410. The out-rectangle \<open>invalRect\<close> is storage of the caller, distinct from
  the draw rectangle \<open>rect\<close>.
\<close>

definition drawGL_draw ::
  "GLWebViewState \<Rightarrow> 32 word \<Rightarrow> Event list \<Rightarrow> DrawEnv \<Rightarrow> IntRect \<Rightarrow> SkRect \<Rightarrow> IntRect
     \<Rightarrow> real \<Rightarrow> bool \<Rightarrow> DrawResult" where
  "drawGL_draw s2 returnFlags1 ev4 env rect viewport invalRect scale shouldDraw =
     (let ev5 = ev4 @ [EvGatherTextures];
          s3 = fst (setupDrawing s2 viewport scale (env_currentTime env));
          ev6 = ev5 @ [EvSetupDrawing];
          fastSwap = (m_isScrolling s3 \<or> m_layersRenderingMode s3 = kSingleSurfaceRendering);
          returnFlags2 = returnFlags1 OR env_collectionFlags env;
          s4 = addDirtyAreas s3 (env_layersDirty env);
          ev7 = ev6 @ [EvCollectionDrawGL fastSwap] @ map EvAddDirtyArea (env_layersDirty env);
          nbTexturesForImages = env_nbTexturesForImages env;
          nb0 = env_nbTexturesNeeded env;
          nb1 = nb0\<lparr>full := full nb0 + nbTexturesForImages\<rparr>;
          nb2 = nb1\<lparr>clipped := clipped nb1 + nbTexturesForImages\<rparr>;
          sel = setLayersRenderingMode (env_maxLayerTextureCount env) s4 nb2;
          s5 = fst sel;
          returnFlags3 = (if snd sel then returnFlags2 OR (kStatusDraw OR kStatusInvoke)
                          else returnFlags2);
          ev8 = ev7 @ [EvSetLayersRenderingMode, EvGlBindBuffer, EvDeleteUnusedTextures];
          inv = (if returnFlags3 AND kStatusDraw \<noteq> 0
                 then invalAfterDraw (m_frameworkLayersInval s5) rect invalRect
                 else (m_frameworkLayersInval s5, invalRect));
          s6 = s5\<lparr>m_frameworkLayersInval := fst inv\<rparr>;
          ev9 = (if shouldDraw then ev8 @ [EvShowFrameInfo] else ev8)
      in \<lparr>dr_state = s6, dr_returnFlags = returnFlags3, dr_invalRect = snd inv,
          dr_collectionsSwapped = env_collectionsSwapped env,
          dr_newCollectionHasAnim = env_newCollectionHasAnim env,
          dr_events = ev9\<rparr>)"

definition drawGL ::
  "GLWebViewState \<Rightarrow> DrawEnv \<Rightarrow> IntRect \<Rightarrow> SkRect \<Rightarrow> IntRect \<Rightarrow> real \<Rightarrow> bool \<Rightarrow> DrawOutcome" where
  "drawGL s env rect viewport invalRect scale shouldDraw =
     (case drawGL_update s env scale shouldDraw of
        Inl evs \<Rightarrow> Crashed evs
      | Inr (s2, returnFlags1, ev4) \<Rightarrow>
          Returned (drawGL_draw s2 returnFlags1 ev4 env rect viewport invalRect scale shouldDraw))"

section \<open>Notions of the specification\<close>

text \<open>
  A mode's demand fits a budget when the count tested for that mode is strictly below it;
  the coarsest mode asks for nothing.
\<close>

definition spec_demandFits :: "int \<Rightarrow> TexturesResult \<Rightarrow> LayersRenderingMode \<Rightarrow> bool" where
  "spec_demandFits maxTextures nb m =
     (case m of
        kAllTextures \<Rightarrow> full nb < maxTextures
      | kClippedTextures \<Rightarrow> clipped nb < maxTextures
      | kScrollableAndFixedLayers \<Rightarrow> scrollable nb < maxTextures
      | kFixedLayers \<Rightarrow> fixed nb < maxTextures
      | kSingleSurfaceRendering \<Rightarrow> True)"

text \<open>
  The dirty region accumulated from a list of reports, starting from the empty region:
  every non-empty report is outset by 8 and joined to what is there.
\<close>

definition spec_report :: "IntRect \<Rightarrow> IntRect \<Rightarrow> IntRect" where
  "spec_report region rect =
     (if ir_isEmpty rect then region
      else if ir_isEmpty region then inflate 8 rect
      else unite region (inflate 8 rect))"

definition spec_accumulated :: "IntRect list \<Rightarrow> IntRect" where
  "spec_accumulated reports = foldl spec_report zeroRect reports"

text \<open>The demand handed to the selector by \<open>drawGL\<close>: image textures added to two counts.\<close>

definition demandWithImages :: "DrawEnv \<Rightarrow> TexturesResult" where
  "demandWithImages env =
     (env_nbTexturesNeeded env)
       \<lparr>full := full (env_nbTexturesNeeded env) + env_nbTexturesForImages env,
        clipped := clipped (env_nbTexturesNeeded env) + env_nbTexturesForImages env\<rparr>"

section \<open>Auxiliary facts\<close>

subsection \<open>The selector\<close>

lemma candidateMode_cases:
  "candidateMode maxTextures nb =
     (if maxTextures = 0 \<and> full nb = 0 then kAllTextures
      else if full nb < maxTextures then kAllTextures
      else if clipped nb < maxTextures then kClippedTextures
      else if scrollable nb < maxTextures then kScrollableAndFixedLayers
      else if fixed nb < maxTextures then kFixedLayers
      else kSingleSurfaceRendering)"
  by (simp add: candidateMode_def)

lemma candidateMode_fits:
  "\<not> (maxTextures = 0 \<and> full nb = 0) \<Longrightarrow>
   spec_demandFits maxTextures nb (candidateMode maxTextures nb)"
  by (simp add: candidateMode_cases spec_demandFits_def)

lemma candidateMode_richest:
  "\<not> (maxTextures = 0 \<and> full nb = 0) \<Longrightarrow> spec_demandFits maxTextures nb m \<Longrightarrow>
   modeValue (candidateMode maxTextures nb) \<le> modeValue m"
  by (cases m) (simp_all add: candidateMode_cases spec_demandFits_def)

lemma clampMode_cases:
  "clampMode c = (if c = kAllTextures \<or> c = kClippedTextures then c else kSingleSurfaceRendering)"
  by (cases c) (simp_all add: clampMode_def)

lemma clampMode_mono:
  "modeValue a \<le> modeValue b \<Longrightarrow> modeValue (clampMode a) \<le> modeValue (clampMode b)"
  by (cases a; cases b) (simp_all add: clampMode_def)

lemma candidateMode_mono:
  assumes "fixed d1 \<le> fixed d2" "scrollable d1 \<le> scrollable d2"
    "clipped d1 \<le> clipped d2" "full d1 \<le> full d2"
  shows "modeValue (candidateMode maxTextures d1) \<le> modeValue (candidateMode maxTextures d2)"
  using assms by (auto simp add: candidateMode_cases)

lemma committed_mode:
  "m_layersRenderingMode (fst (setLayersRenderingMode readBack s nb)) =
     clampMode (candidateMode (maxTexturesForTests (m_layersRenderingMode s) readBack) nb)"
  by (simp add: setLayersRenderingMode_def Let_def)

lemma setLayersRenderingMode_region [simp]:
  "m_frameworkLayersInval (fst (setLayersRenderingMode readBack s nb)) = m_frameworkLayersInval s"
  by (simp add: setLayersRenderingMode_def Let_def)

lemma sdiv_two_nonneg: "0 \<le> k \<Longrightarrow> k sdiv 2 = k div (2 :: int)"
  by (simp add: signed_divide_int_def sgn_if)

subsection \<open>The viewport\<close>

lemma setViewport_region [simp]:
  "m_frameworkLayersInval (setViewport s viewport scale) = m_frameworkLayersInval s"
  by (simp add: setViewport_def)

lemma setViewport_mode [simp]:
  "m_layersRenderingMode (setViewport s viewport scale) = m_layersRenderingMode s"
  by (simp add: setViewport_def)

lemma setViewport_isScrolling [simp]:
  "m_isScrolling (setViewport s viewport scale) = m_isScrolling s"
  by (simp add: setViewport_def)

text \<open>
  \<open>sk_Intersects\<close> is geometric overlap: the two rectangles have a common interior
  point.
\<close>

lemma sk_Intersects_geometric:
  "sk_Intersects a b \<longleftrightarrow>
     (\<exists>px py. fLeft a < px \<and> px < fRight a \<and> fTop a < py \<and> py < fBottom a
            \<and> fLeft b < px \<and> px < fRight b \<and> fTop b < py \<and> py < fBottom b)"
proof
  assume i: "sk_Intersects a b"
  then have x: "max (fLeft a) (fLeft b) < min (fRight a) (fRight b)"
    by (simp add: sk_Intersects_def sk_isEmpty_def not_le)
  from i have y: "max (fTop a) (fTop b) < min (fBottom a) (fBottom b)"
    by (simp add: sk_Intersects_def sk_isEmpty_def not_le)
  from x obtain px where px: "max (fLeft a) (fLeft b) < px" "px < min (fRight a) (fRight b)"
    using dense by blast
  from y obtain py where py: "max (fTop a) (fTop b) < py" "py < min (fBottom a) (fBottom b)"
    using dense by blast
  from px py have "fLeft a < px \<and> px < fRight a \<and> fTop a < py \<and> py < fBottom a
            \<and> fLeft b < px \<and> px < fRight b \<and> fTop b < py \<and> py < fBottom b"
    by simp
  then show "\<exists>px py. fLeft a < px \<and> px < fRight a \<and> fTop a < py \<and> py < fBottom a
            \<and> fLeft b < px \<and> px < fRight b \<and> fTop b < py \<and> py < fBottom b"
    by blast
next
  assume "\<exists>px py. fLeft a < px \<and> px < fRight a \<and> fTop a < py \<and> py < fBottom a
            \<and> fLeft b < px \<and> px < fRight b \<and> fTop b < py \<and> py < fBottom b"
  then obtain px py where p: "fLeft a < px" "px < fRight a" "fTop a < py" "py < fBottom a"
            "fLeft b < px" "px < fRight b" "fTop b < py" "py < fBottom b"
    by blast
  have "fLeft a < fRight a" "fTop a < fBottom a" "fLeft b < fRight b" "fTop b < fBottom b"
    "fLeft a < fRight b" "fLeft b < fRight a" "fTop a < fBottom b" "fTop b < fBottom a"
    using p by linarith+
  then show "sk_Intersects a b"
    by (simp add: sk_Intersects_def sk_isEmpty_def not_le)
qed

subsection \<open>The dirty region\<close>

lemma addDirtyArea_region:
  "addDirtyArea s rect = s\<lparr>m_frameworkLayersInval := spec_report (m_frameworkLayersInval s) rect\<rparr>"
  by (simp add: addDirtyArea_def spec_report_def Let_def)

lemma addDirtyAreas_region:
  "addDirtyAreas s rects =
     s\<lparr>m_frameworkLayersInval := foldl spec_report (m_frameworkLayersInval s) rects\<rparr>"
  unfolding addDirtyAreas_def
proof (induction rects arbitrary: s)
  case Nil
  show ?case by simp
next
  case (Cons r rs)
  have step: "foldl addDirtyArea s (r # rs) = foldl addDirtyArea (addDirtyArea s r) rs"
    by (simp only: foldl_Cons)
  have region: "m_frameworkLayersInval (addDirtyArea s r) = spec_report (m_frameworkLayersInval s) r"
    by (simp add: addDirtyArea_region)
  have upd: "\<And>X. (addDirtyArea s r)\<lparr>m_frameworkLayersInval := X\<rparr> = s\<lparr>m_frameworkLayersInval := X\<rparr>"
    by (simp add: addDirtyArea_region)
  show ?case
    by (simp only: step Cons.IH [of "addDirtyArea s r"] region upd foldl_Cons)
qed

lemma addDirtyAreas_mode [simp]:
  "m_layersRenderingMode (addDirtyAreas s rects) = m_layersRenderingMode s"
  by (simp add: addDirtyAreas_region)

lemma resetLayersDirtyArea_region:
  "resetLayersDirtyArea s = s\<lparr>m_frameworkLayersInval := zeroRect\<rparr>"
  by (simp add: resetLayersDirtyArea_def zeroRect_def)

lemma spec_accumulated_append:
  "foldl spec_report (spec_accumulated xs) ys = spec_accumulated (xs @ ys)"
  by (simp add: spec_accumulated_def)

lemma spec_report_nonempty:
  "\<not> ir_isEmpty region \<Longrightarrow> \<not> ir_isEmpty (spec_report region rect)"
  by (auto simp add: spec_report_def unite_def ir_isEmpty_def ir_maxX_def ir_maxY_def Let_def
      inflate_def)

lemma no_reset_in_reports [simp]:
  "EvResetLayersDirtyArea \<notin> set (map EvAddDirtyArea rects)"
  by auto

lemma invalAfterDraw_eq:
  "invalAfterDraw d rect invalRect =
     (if ir_isEmpty d then (d, zeroRect)
      else if \<not> intersects (inflate 1 d) rect then (inflate 1 d, zeroRect)
      else (inflate 1 d, inflate 1 d))"
  by (cases invalRect) (simp add: invalAfterDraw_def Let_def zeroRect_def inflate_def)

subsection \<open>One run of drawGL\<close>

lemma drawGL_update_crash:
  "scaleOutOfRange scale \<Longrightarrow>
   drawGL_update s env scale shouldDraw =
     Inl ((if shouldDraw then [EvProfilerNextFrame] else [])
          @ [EvIncDrawGLCount, EvResetLayersDirtyArea, EvWarnScaleBeforeUpdate,
             EvUpdateDirtyTiles, EvPrepareTextures]
          @ map EvAddDirtyArea (env_imagesDirty env)
          @ [EvWarnScaleAfterUpdate, EvCrash])"
  by (simp add: drawGL_update_def Let_def)

lemma drawGL_update_ok:
  "\<not> scaleOutOfRange scale \<Longrightarrow>
   drawGL_update s env scale shouldDraw =
     Inr (s\<lparr>m_frameworkLayersInval := spec_accumulated (env_imagesDirty env)\<rparr>,
          if env_prepareTextures env then kStatusDraw else 0,
          (if shouldDraw then [EvProfilerNextFrame] else [])
          @ [EvIncDrawGLCount, EvResetLayersDirtyArea, EvUpdateDirtyTiles, EvPrepareTextures]
          @ map EvAddDirtyArea (env_imagesDirty env))"
  by (simp add: drawGL_update_def Let_def addDirtyAreas_region resetLayersDirtyArea_region
      spec_accumulated_def)

lemma drawGL_cases:
  "drawGL s env rect viewport invalRect scale shouldDraw =
     (if scaleOutOfRange scale
      then Crashed ((if shouldDraw then [EvProfilerNextFrame] else [])
          @ [EvIncDrawGLCount, EvResetLayersDirtyArea, EvWarnScaleBeforeUpdate,
             EvUpdateDirtyTiles, EvPrepareTextures]
          @ map EvAddDirtyArea (env_imagesDirty env)
          @ [EvWarnScaleAfterUpdate, EvCrash])
      else Returned (drawGL_draw
          (s\<lparr>m_frameworkLayersInval := spec_accumulated (env_imagesDirty env)\<rparr>)
          (if env_prepareTextures env then kStatusDraw else 0)
          ((if shouldDraw then [EvProfilerNextFrame] else [])
            @ [EvIncDrawGLCount, EvResetLayersDirtyArea, EvUpdateDirtyTiles, EvPrepareTextures]
            @ map EvAddDirtyArea (env_imagesDirty env))
          env rect viewport invalRect scale shouldDraw))"
  by (simp add: drawGL_def drawGL_update_crash drawGL_update_ok)

lemma drawGL_draw_invalRect:
  "dr_invalRect (drawGL_draw s2 f ev env rect viewport invalRect scale shouldDraw) =
     (if dr_returnFlags (drawGL_draw s2 f ev env rect viewport invalRect scale shouldDraw)
           AND kStatusDraw \<noteq> 0
      then snd (invalAfterDraw
                  (foldl spec_report (m_frameworkLayersInval s2) (env_layersDirty env))
                  rect invalRect)
      else invalRect)"
  by (simp add: drawGL_draw_def Let_def setupDrawing_def addDirtyAreas_region)

lemma drawGL_draw_region:
  "m_frameworkLayersInval
     (dr_state (drawGL_draw s2 f ev env rect viewport invalRect scale shouldDraw)) =
     (if dr_returnFlags (drawGL_draw s2 f ev env rect viewport invalRect scale shouldDraw)
           AND kStatusDraw \<noteq> 0
      then fst (invalAfterDraw
                  (foldl spec_report (m_frameworkLayersInval s2) (env_layersDirty env))
                  rect invalRect)
      else foldl spec_report (m_frameworkLayersInval s2) (env_layersDirty env))"
  by (simp add: drawGL_draw_def Let_def setupDrawing_def addDirtyAreas_region)

lemma drawGL_draw_events:
  "dr_events (drawGL_draw s2 f ev env rect viewport invalRect scale shouldDraw) =
     ev @ [EvGatherTextures, EvSetupDrawing,
           EvCollectionDrawGL (m_isScrolling s2 \<or> m_layersRenderingMode s2 = kSingleSurfaceRendering)]
        @ map EvAddDirtyArea (env_layersDirty env)
        @ [EvSetLayersRenderingMode, EvGlBindBuffer, EvDeleteUnusedTextures]
        @ (if shouldDraw then [EvShowFrameInfo] else [])"
  by (simp add: drawGL_draw_def Let_def setupDrawing_def)

lemma drawGL_draw_mode:
  "m_layersRenderingMode
     (dr_state (drawGL_draw s2 f ev env rect viewport invalRect scale shouldDraw)) =
     clampMode (candidateMode
       (maxTexturesForTests (m_layersRenderingMode s2) (env_maxLayerTextureCount env))
       (demandWithImages env))"
  by (simp add: drawGL_draw_def Let_def setupDrawing_def demandWithImages_def committed_mode)

lemma drawGL_events:
  "outcomeEvents (drawGL s env rect viewport invalRect scale shouldDraw) =
     (if shouldDraw then [EvProfilerNextFrame] else [])
     @ [EvIncDrawGLCount, EvResetLayersDirtyArea]
     @ (if scaleOutOfRange scale then [EvWarnScaleBeforeUpdate] else [])
     @ [EvUpdateDirtyTiles, EvPrepareTextures]
     @ map EvAddDirtyArea (env_imagesDirty env)
     @ (if scaleOutOfRange scale then [EvWarnScaleAfterUpdate, EvCrash]
        else [EvGatherTextures, EvSetupDrawing,
              EvCollectionDrawGL (m_isScrolling s \<or> m_layersRenderingMode s = kSingleSurfaceRendering)]
             @ map EvAddDirtyArea (env_layersDirty env)
             @ [EvSetLayersRenderingMode, EvGlBindBuffer, EvDeleteUnusedTextures]
             @ (if shouldDraw then [EvShowFrameInfo] else []))"
  by (simp add: drawGL_cases drawGL_draw_events)

lemma drawGL_Returned:
  assumes "drawGL s env rect viewport invalRect scale shouldDraw = Returned r"
  shows "r = drawGL_draw
          (s\<lparr>m_frameworkLayersInval := spec_accumulated (env_imagesDirty env)\<rparr>)
          (if env_prepareTextures env then kStatusDraw else 0)
          ((if shouldDraw then [EvProfilerNextFrame] else [])
            @ [EvIncDrawGLCount, EvResetLayersDirtyArea, EvUpdateDirtyTiles, EvPrepareTextures]
            @ map EvAddDirtyArea (env_imagesDirty env))
          env rect viewport invalRect scale shouldDraw"
proof -
  from assms have ok: "\<not> scaleOutOfRange scale"
    by (auto simp add: drawGL_cases split: if_splits)
  with assms show ?thesis
    by (simp add: drawGL_cases)
qed

lemma drawGL_region:
  assumes "drawGL s env rect viewport invalRect scale shouldDraw = Returned r"
  shows "m_frameworkLayersInval (dr_state r) =
     (let d = spec_accumulated (env_imagesDirty env @ env_layersDirty env)
      in if dr_returnFlags r AND kStatusDraw \<noteq> 0 \<and> \<not> ir_isEmpty d then inflate 1 d else d)"
  unfolding drawGL_Returned [OF assms]
  by (subst drawGL_draw_region) (simp add: spec_accumulated_append invalAfterDraw_eq Let_def)

section \<open>The rendering-mode selector\<close>

text \<open>
  C1. In \<open>setLayersRenderingMode\<close>, for every demand and every budget \<open>maxTextures\<close> used by
  the tests: the mode before the clamp starts as \<open>kSingleSurfaceRendering\<close> and the tests of
  \<open>fixed\<close>, \<open>scrollable\<close>, \<open>clipped\<close>, \<open>full\<close>, each "count < maxTextures", override one
  another in that order, so that the result is the mode of the last test that passes. That
  is the richest mode whose demand fits the budget. When \<open>maxTextures = 0\<close> and
  \<open>full = 0\<close> the result is \<open>kAllTextures\<close>. The committed mode is that candidate, with
  everything coarser than \<open>kClippedTextures\<close> replaced by \<open>kSingleSurfaceRendering\<close>; it is
  always one of \<open>kAllTextures\<close>, \<open>kClippedTextures\<close>, \<open>kSingleSurfaceRendering\<close>.
\<close>

theorem setLayersRenderingMode_candidate_and_clamp:
  "candidateMode maxTextures nb =
     (if maxTextures = 0 \<and> full nb = 0 then kAllTextures
      else if full nb < maxTextures then kAllTextures
      else if clipped nb < maxTextures then kClippedTextures
      else if scrollable nb < maxTextures then kScrollableAndFixedLayers
      else if fixed nb < maxTextures then kFixedLayers
      else kSingleSurfaceRendering)
   \<and> (\<not> (maxTextures = 0 \<and> full nb = 0) \<longrightarrow>
        spec_demandFits maxTextures nb (candidateMode maxTextures nb)
        \<and> (\<forall>m. spec_demandFits maxTextures nb m \<longrightarrow>
               modeValue (candidateMode maxTextures nb) \<le> modeValue m))
   \<and> (maxTextures = 0 \<and> full nb = 0 \<longrightarrow> candidateMode maxTextures nb = kAllTextures)
   \<and> m_layersRenderingMode (fst (setLayersRenderingMode readBack s nb)) =
       (let candidate = candidateMode (maxTexturesForTests (m_layersRenderingMode s) readBack) nb
        in if modeValue candidate > modeValue kClippedTextures
           then kSingleSurfaceRendering else candidate)
   \<and> m_layersRenderingMode (fst (setLayersRenderingMode readBack s nb))
       \<in> {kAllTextures, kClippedTextures, kSingleSurfaceRendering}"
proof -
  have a: "m_layersRenderingMode (fst (setLayersRenderingMode readBack s nb))
       \<in> {kAllTextures, kClippedTextures, kSingleSurfaceRendering}"
    by (simp add: committed_mode clampMode_cases)
  have b: "m_layersRenderingMode (fst (setLayersRenderingMode readBack s nb)) =
       (let candidate = candidateMode (maxTexturesForTests (m_layersRenderingMode s) readBack) nb
        in if modeValue candidate > modeValue kClippedTextures
           then kSingleSurfaceRendering else candidate)"
    by (simp add: committed_mode clampMode_def Let_def)
  have c: "maxTextures = 0 \<and> full nb = 0 \<longrightarrow> candidateMode maxTextures nb = kAllTextures"
    by (simp add: candidateMode_cases)
  show ?thesis
    using a b c candidateMode_cases [of maxTextures nb] candidateMode_fits [of maxTextures nb]
      candidateMode_richest [of maxTextures nb]
    by blast
qed

text \<open>
  The statement at budget 10 with demand (2, 4, 8, 15), where the clipped count is the
  finest that fits, and at budget 0 with no demand.
\<close>

theorem setLayersRenderingMode_candidate_and_clamp_witness:
  "candidateMode 10 \<lparr>fixed = 2, scrollable = 4, clipped = 8, full = 15\<rparr> = kClippedTextures
   \<and> spec_demandFits 10 \<lparr>fixed = 2, scrollable = 4, clipped = 8, full = 15\<rparr> kClippedTextures
   \<and> \<not> spec_demandFits 10 \<lparr>fixed = 2, scrollable = 4, clipped = 8, full = 15\<rparr> kAllTextures
   \<and> m_layersRenderingMode (fst (setLayersRenderingMode 10 GLWebViewState_new \<lparr>fixed = 2, scrollable = 4, clipped = 8, full = 15\<rparr>))
       = kClippedTextures
   \<and> candidateMode 0 \<lparr>fixed = 0, scrollable = 0, clipped = 0, full = 0\<rparr> = kAllTextures"
  using setLayersRenderingMode_candidate_and_clamp
          [of 10 "\<lparr>fixed = 2, scrollable = 4, clipped = 8, full = 15\<rparr>" 10 GLWebViewState_new]
        setLayersRenderingMode_candidate_and_clamp
          [of 0 "\<lparr>fixed = 0, scrollable = 0, clipped = 0, full = 0\<rparr>" 0 GLWebViewState_new]
  by (simp add: spec_demandFits_def maxTexturesForTests_def GLWebViewState_new_def)

text \<open>
  C3. \<open>setLayersRenderingMode\<close> returns true exactly when the committed mode (the
  candidate after the clamp, which is the mode the call stores) differs from the mode on
  entry and \<open>invalBase\<close> holds, where \<open>invalBase\<close> holds exactly when the candidate
  before the clamp is strictly richer than the previous mode and is not \<open>kAllTextures\<close>,
  or is strictly coarser than the previous mode and is not \<open>kClippedTextures\<close>. In
  particular the result is false whenever the committed mode is the mode on entry.
\<close>

theorem setLayersRenderingMode_return_value:
  "snd (setLayersRenderingMode readBack s nb) =
     (let prev = m_layersRenderingMode s;
          candidate = candidateMode (maxTexturesForTests prev readBack) nb;
          committed = (if modeValue candidate > modeValue kClippedTextures
                       then kSingleSurfaceRendering else candidate);
          invalBase = ((modeValue candidate < modeValue prev \<and> candidate \<noteq> kAllTextures)
                       \<or> (modeValue candidate > modeValue prev \<and> candidate \<noteq> kClippedTextures))
      in committed \<noteq> prev \<and> invalBase)
   \<and> fst (setLayersRenderingMode readBack s nb) =
       (let prev = m_layersRenderingMode s;
            candidate = candidateMode (maxTexturesForTests prev readBack) nb;
            committed = (if modeValue candidate > modeValue kClippedTextures
                         then kSingleSurfaceRendering else candidate)
        in s\<lparr>m_layersRenderingMode := committed\<rparr>)
   \<and> (m_layersRenderingMode (fst (setLayersRenderingMode readBack s nb)) = m_layersRenderingMode s
        \<longrightarrow> \<not> snd (setLayersRenderingMode readBack s nb))"
proof -
  have ret: "snd (setLayersRenderingMode readBack s nb) =
     (let prev = m_layersRenderingMode s;
          candidate = candidateMode (maxTexturesForTests prev readBack) nb;
          committed = (if modeValue candidate > modeValue kClippedTextures
                       then kSingleSurfaceRendering else candidate);
          invalBase = ((modeValue candidate < modeValue prev \<and> candidate \<noteq> kAllTextures)
                       \<or> (modeValue candidate > modeValue prev \<and> candidate \<noteq> kClippedTextures))
      in committed \<noteq> prev \<and> invalBase)"
    by (auto simp add: setLayersRenderingMode_def invalBaseFor_def clampMode_def Let_def)
  have st: "fst (setLayersRenderingMode readBack s nb) =
       (let prev = m_layersRenderingMode s;
            candidate = candidateMode (maxTexturesForTests prev readBack) nb;
            committed = (if modeValue candidate > modeValue kClippedTextures
                         then kSingleSurfaceRendering else candidate)
        in s\<lparr>m_layersRenderingMode := committed\<rparr>)"
    by (simp add: setLayersRenderingMode_def clampMode_def Let_def)
  have same: "m_layersRenderingMode (fst (setLayersRenderingMode readBack s nb))
        = m_layersRenderingMode s \<longrightarrow> \<not> snd (setLayersRenderingMode readBack s nb)"
    by (simp add: setLayersRenderingMode_def Let_def)
  from ret st same show ?thesis by blast
qed

text \<open>
  From a fresh object (mode \<open>kAllTextures\<close>) with 10 read back and the demand
  (12, 14, 18, 25): no test passes, the candidate \<open>kSingleSurfaceRendering\<close> is coarser than
  the mode on entry and is not \<open>kClippedTextures\<close>, the call stores
  \<open>kSingleSurfaceRendering\<close> and returns true. With no demand and budget 0 the mode is
  kept and the call returns false.
\<close>

theorem setLayersRenderingMode_return_value_witness:
  "snd (setLayersRenderingMode 10 GLWebViewState_new \<lparr>fixed = 12, scrollable = 14, clipped = 18, full = 25\<rparr>)
   \<and> m_layersRenderingMode (fst (setLayersRenderingMode 10 GLWebViewState_new \<lparr>fixed = 12, scrollable = 14, clipped = 18, full = 25\<rparr>))
       = kSingleSurfaceRendering
   \<and> m_layersRenderingMode (fst (setLayersRenderingMode 0 GLWebViewState_new \<lparr>fixed = 0, scrollable = 0, clipped = 0, full = 0\<rparr>))
       = m_layersRenderingMode GLWebViewState_new
   \<and> \<not> snd (setLayersRenderingMode 0 GLWebViewState_new \<lparr>fixed = 0, scrollable = 0, clipped = 0, full = 0\<rparr>)"
proof -
  from setLayersRenderingMode_return_value [of 10 GLWebViewState_new "\<lparr>fixed = 12, scrollable = 14, clipped = 18, full = 25\<rparr>"]
    setLayersRenderingMode_return_value [of 0 GLWebViewState_new "\<lparr>fixed = 0, scrollable = 0, clipped = 0, full = 0\<rparr>"]
  show ?thesis
    by (simp add: candidateMode_def maxTexturesForTests_def GLWebViewState_new_def Let_def)
qed

text \<open>
  C4. For a fixed budget \<open>maxTextures\<close> at the tests and a fixed mode on entry, the selected
  mode is monotonic in demand: when every count of one demand is at most the corresponding
  count of another, the mode selected for the first (before and after the clamp) is at
  least as rich as the mode selected for the second. With budget 10 at the tests, the demand
  (fixed 2, scrollable 4, clipped 8, full 15) resolves to a strictly richer committed mode
  than (fixed 12, scrollable 14, clipped 18, full 25); with 10 read back from the tile
  manager, whatever the mode on entry, the mode before the clamp is strictly richer.
\<close>

theorem mode_monotonic_in_demand:
  "(fixed d1 \<le> fixed d2 \<and> scrollable d1 \<le> scrollable d2
      \<and> clipped d1 \<le> clipped d2 \<and> full d1 \<le> full d2 \<longrightarrow>
      modeValue (candidateMode maxTextures d1) \<le> modeValue (candidateMode maxTextures d2)
      \<and> modeValue (m_layersRenderingMode (fst (setLayersRenderingMode readBack s d1)))
          \<le> modeValue (m_layersRenderingMode (fst (setLayersRenderingMode readBack s d2))))
   \<and> (maxTexturesForTests (m_layersRenderingMode s) readBack = 10 \<longrightarrow>
        modeValue (m_layersRenderingMode (fst (setLayersRenderingMode readBack s
            \<lparr>fixed = 2, scrollable = 4, clipped = 8, full = 15\<rparr>)))
        < modeValue (m_layersRenderingMode (fst (setLayersRenderingMode readBack s
            \<lparr>fixed = 12, scrollable = 14, clipped = 18, full = 25\<rparr>))))
   \<and> (readBack = 10 \<longrightarrow>
        modeValue (candidateMode (maxTexturesForTests (m_layersRenderingMode s) readBack)
            \<lparr>fixed = 2, scrollable = 4, clipped = 8, full = 15\<rparr>)
        < modeValue (candidateMode (maxTexturesForTests (m_layersRenderingMode s) readBack)
            \<lparr>fixed = 12, scrollable = 14, clipped = 18, full = 25\<rparr>))"
proof -
  have ex: "maxTexturesForTests (m_layersRenderingMode s) readBack = 10 \<longrightarrow>
        modeValue (m_layersRenderingMode (fst (setLayersRenderingMode readBack s
            \<lparr>fixed = 2, scrollable = 4, clipped = 8, full = 15\<rparr>)))
        < modeValue (m_layersRenderingMode (fst (setLayersRenderingMode readBack s
            \<lparr>fixed = 12, scrollable = 14, clipped = 18, full = 25\<rparr>)))"
    by (simp add: committed_mode candidateMode_cases clampMode_def)
  have cand: "readBack = 10 \<longrightarrow>
        modeValue (candidateMode (maxTexturesForTests (m_layersRenderingMode s) readBack)
            \<lparr>fixed = 2, scrollable = 4, clipped = 8, full = 15\<rparr>)
        < modeValue (candidateMode (maxTexturesForTests (m_layersRenderingMode s) readBack)
            \<lparr>fixed = 12, scrollable = 14, clipped = 18, full = 25\<rparr>)"
    by (simp add: candidateMode_cases maxTexturesForTests_def signed_divide_int_def)
  have mono: "fixed d1 \<le> fixed d2 \<and> scrollable d1 \<le> scrollable d2
      \<and> clipped d1 \<le> clipped d2 \<and> full d1 \<le> full d2 \<longrightarrow>
      modeValue (candidateMode maxTextures d1) \<le> modeValue (candidateMode maxTextures d2)
      \<and> modeValue (m_layersRenderingMode (fst (setLayersRenderingMode readBack s d1)))
          \<le> modeValue (m_layersRenderingMode (fst (setLayersRenderingMode readBack s d2)))"
    using candidateMode_mono [of d1 d2] clampMode_mono
    by (simp add: committed_mode)
  from mono ex cand show ?thesis by blast
qed

text \<open>
  The two demands of the example on a fresh object (mode \<open>kAllTextures\<close>, so the budget
  read back, 10, is the budget of the tests): the hypotheses hold and the theorem orders the
  results.
\<close>

theorem mode_monotonic_in_demand_witness:
  "fixed \<lparr>fixed = 2, scrollable = 4, clipped = 8, full = 15\<rparr> \<le> fixed \<lparr>fixed = 12, scrollable = 14, clipped = 18, full = 25\<rparr> \<and> scrollable \<lparr>fixed = 2, scrollable = 4, clipped = 8, full = 15\<rparr> \<le> scrollable \<lparr>fixed = 12, scrollable = 14, clipped = 18, full = 25\<rparr>
   \<and> clipped \<lparr>fixed = 2, scrollable = 4, clipped = 8, full = 15\<rparr> \<le> clipped \<lparr>fixed = 12, scrollable = 14, clipped = 18, full = 25\<rparr> \<and> full \<lparr>fixed = 2, scrollable = 4, clipped = 8, full = 15\<rparr> \<le> full \<lparr>fixed = 12, scrollable = 14, clipped = 18, full = 25\<rparr>
   \<and> maxTexturesForTests (m_layersRenderingMode GLWebViewState_new) 10 = 10
   \<and> modeValue (candidateMode 10 \<lparr>fixed = 2, scrollable = 4, clipped = 8, full = 15\<rparr>) \<le> modeValue (candidateMode 10 \<lparr>fixed = 12, scrollable = 14, clipped = 18, full = 25\<rparr>)
   \<and> modeValue (m_layersRenderingMode (fst (setLayersRenderingMode 10 GLWebViewState_new \<lparr>fixed = 2, scrollable = 4, clipped = 8, full = 15\<rparr>)))
       < modeValue (m_layersRenderingMode (fst (setLayersRenderingMode 10 GLWebViewState_new \<lparr>fixed = 12, scrollable = 14, clipped = 18, full = 25\<rparr>)))"
proof -
  have h: "fixed \<lparr>fixed = 2, scrollable = 4, clipped = 8, full = 15\<rparr> \<le> fixed \<lparr>fixed = 12, scrollable = 14, clipped = 18, full = 25\<rparr> \<and> scrollable \<lparr>fixed = 2, scrollable = 4, clipped = 8, full = 15\<rparr> \<le> scrollable \<lparr>fixed = 12, scrollable = 14, clipped = 18, full = 25\<rparr>
   \<and> clipped \<lparr>fixed = 2, scrollable = 4, clipped = 8, full = 15\<rparr> \<le> clipped \<lparr>fixed = 12, scrollable = 14, clipped = 18, full = 25\<rparr> \<and> full \<lparr>fixed = 2, scrollable = 4, clipped = 8, full = 15\<rparr> \<le> full \<lparr>fixed = 12, scrollable = 14, clipped = 18, full = 25\<rparr>"
    by simp
  have b: "maxTexturesForTests (m_layersRenderingMode GLWebViewState_new) 10 = 10"
    by (simp add: maxTexturesForTests_def GLWebViewState_new_def)
  from h b mode_monotonic_in_demand [of "\<lparr>fixed = 2, scrollable = 4, clipped = 8, full = 15\<rparr>" "\<lparr>fixed = 12, scrollable = 14, clipped = 18, full = 25\<rparr>" 10 10 GLWebViewState_new]
  show ?thesis by blast
qed

text \<open>
  C2, as stated, fails: starting in \<open>kSingleSurfaceRendering\<close> with 10 read back from the
  tile manager, the demand (fixed 1, scrollable 2, clipped 3, full 6) requires exactly 6
  full textures, yet the committed mode is \<open>kClippedTextures\<close>: the clipped count 3 is
  below the halved budget 5.
\<close>

theorem hysteresis_six_full_counterexample:
  "m_layersRenderingMode (fst (setLayersRenderingMode 10 (GLWebViewState_new\<lparr>m_layersRenderingMode := kSingleSurfaceRendering\<rparr>) \<lparr>fixed = 1, scrollable = 2, clipped = 3, full = 6\<rparr>)) = kClippedTextures
   \<and> m_layersRenderingMode (fst (setLayersRenderingMode 10 (GLWebViewState_new\<lparr>m_layersRenderingMode := kSingleSurfaceRendering\<rparr>) \<lparr>fixed = 1, scrollable = 2, clipped = 3, full = 6\<rparr>)) \<noteq> kSingleSurfaceRendering"
  by (simp add: committed_mode maxTexturesForTests_def candidateMode_cases clampMode_def
      signed_divide_int_def GLWebViewState_new_def)

text \<open>
  C2, amended. The budget read back from the tile manager is halved (division by 2
  truncating towards zero, the integer quotient for a budget that is not negative) before
  the tests if and only if the mode on entry is \<open>kSingleSurfaceRendering\<close>. Starting in
  \<open>kSingleSurfaceRendering\<close> with 10 read back, a demand with exactly 6 full textures and at
  least 5 clipped textures keeps the committed mode at \<open>kSingleSurfaceRendering\<close>, and a
  demand with exactly 4 full textures moves it to \<open>kAllTextures\<close>.
\<close>

theorem hysteresis_halving:
  "(let maxTextures = (if m_layersRenderingMode s = kSingleSurfaceRendering
                       then readBack sdiv 2 else readBack)
    in setLayersRenderingMode readBack s nb =
         (s\<lparr>m_layersRenderingMode := clampMode (candidateMode maxTextures nb)\<rparr>,
          clampMode (candidateMode maxTextures nb) \<noteq> m_layersRenderingMode s
          \<and> invalBaseFor (m_layersRenderingMode s) (candidateMode maxTextures nb)))
   \<and> (0 \<le> readBack \<longrightarrow> readBack sdiv 2 = readBack div 2)
   \<and> (m_layersRenderingMode s = kSingleSurfaceRendering \<and> full nb = 6 \<and> 5 \<le> clipped nb \<longrightarrow>
        m_layersRenderingMode (fst (setLayersRenderingMode 10 s nb)) = kSingleSurfaceRendering)
   \<and> (m_layersRenderingMode s = kSingleSurfaceRendering \<and> full nb = 4 \<longrightarrow>
        m_layersRenderingMode (fst (setLayersRenderingMode 10 s nb)) = kAllTextures)"
proof -
  have a: "(let maxTextures = (if m_layersRenderingMode s = kSingleSurfaceRendering
                       then readBack sdiv 2 else readBack)
    in setLayersRenderingMode readBack s nb =
         (s\<lparr>m_layersRenderingMode := clampMode (candidateMode maxTextures nb)\<rparr>,
          clampMode (candidateMode maxTextures nb) \<noteq> m_layersRenderingMode s
          \<and> invalBaseFor (m_layersRenderingMode s) (candidateMode maxTextures nb)))"
    by (simp add: setLayersRenderingMode_def maxTexturesForTests_def Let_def)
  have b: "0 \<le> readBack \<longrightarrow> readBack sdiv 2 = readBack div 2"
    by (simp add: sdiv_two_nonneg)
  have c: "m_layersRenderingMode s = kSingleSurfaceRendering \<and> full nb = 6 \<and> 5 \<le> clipped nb \<longrightarrow>
        m_layersRenderingMode (fst (setLayersRenderingMode 10 s nb)) = kSingleSurfaceRendering"
    by (simp add: committed_mode maxTexturesForTests_def candidateMode_cases clampMode_def
        signed_divide_int_def)
  have d: "m_layersRenderingMode s = kSingleSurfaceRendering \<and> full nb = 4 \<longrightarrow>
        m_layersRenderingMode (fst (setLayersRenderingMode 10 s nb)) = kAllTextures"
    by (simp add: committed_mode maxTexturesForTests_def candidateMode_cases clampMode_def
        signed_divide_int_def)
  from a b c d show ?thesis by blast
qed

text \<open>
  The two demands of the example with every count equal to the full count, from a state in
  \<open>kSingleSurfaceRendering\<close>.
\<close>

theorem hysteresis_halving_witness:
  "m_layersRenderingMode (GLWebViewState_new\<lparr>m_layersRenderingMode := kSingleSurfaceRendering\<rparr>) = kSingleSurfaceRendering
   \<and> (0 :: int) \<le> 10 \<and> (10 :: int) sdiv 2 = 10 div 2
   \<and> m_layersRenderingMode (fst (setLayersRenderingMode 10 (GLWebViewState_new\<lparr>m_layersRenderingMode := kSingleSurfaceRendering\<rparr>) \<lparr>fixed = 6, scrollable = 6, clipped = 6, full = 6\<rparr>)) = kSingleSurfaceRendering
   \<and> m_layersRenderingMode (fst (setLayersRenderingMode 10 (GLWebViewState_new\<lparr>m_layersRenderingMode := kSingleSurfaceRendering\<rparr>) \<lparr>fixed = 4, scrollable = 4, clipped = 4, full = 4\<rparr>)) = kAllTextures"
proof -
  have m: "m_layersRenderingMode (GLWebViewState_new\<lparr>m_layersRenderingMode := kSingleSurfaceRendering\<rparr>) = kSingleSurfaceRendering"
    by simp
  have six: "full \<lparr>fixed = 6, scrollable = 6, clipped = 6, full = 6\<rparr> = 6 \<and> 5 \<le> clipped \<lparr>fixed = 6, scrollable = 6, clipped = 6, full = 6\<rparr>"
    by simp
  have four: "full \<lparr>fixed = 4, scrollable = 4, clipped = 4, full = 4\<rparr> = 4"
    by simp
  have ten: "(0 :: int) \<le> 10"
    by simp
  from m six four ten
    hysteresis_halving [of "(GLWebViewState_new\<lparr>m_layersRenderingMode := kSingleSurfaceRendering\<rparr>)" 10 "\<lparr>fixed = 6, scrollable = 6, clipped = 6, full = 6\<rparr>"]
    hysteresis_halving [of "(GLWebViewState_new\<lparr>m_layersRenderingMode := kSingleSurfaceRendering\<rparr>)" 10 "\<lparr>fixed = 4, scrollable = 4, clipped = 4, full = 4\<rparr>"]
  show ?thesis by blast
qed


section \<open>The viewport tracker\<close>

text \<open>
  C7. After every \<open>setViewport\<close> the flag \<open>m_isViewportScrolling\<close> is true if and only if
  the incoming viewport rectangle differs from the stored one and intersects it
  geometrically (the two have a common interior point). It is false when the incoming
  rectangle and scale are the stored ones, and false when the two rectangles are disjoint.
\<close>

theorem setViewport_isViewportScrolling:
  "m_isViewportScrolling (setViewport s viewport scale)
     = (m_viewport s \<noteq> viewport \<and> sk_Intersects (m_viewport s) viewport)
   \<and> (m_viewport s = viewport \<and> m_scale s = scale \<longrightarrow>
        \<not> m_isViewportScrolling (setViewport s viewport scale))
   \<and> (\<not> sk_Intersects (m_viewport s) viewport \<longrightarrow>
        \<not> m_isViewportScrolling (setViewport s viewport scale))
   \<and> (sk_Intersects (m_viewport s) viewport \<longleftrightarrow>
        (\<exists>px py. fLeft (m_viewport s) < px \<and> px < fRight (m_viewport s)
            \<and> fTop (m_viewport s) < py \<and> py < fBottom (m_viewport s)
            \<and> fLeft viewport < px \<and> px < fRight viewport
            \<and> fTop viewport < py \<and> py < fBottom viewport))"
proof -
  have flag: "m_isViewportScrolling (setViewport s viewport scale)
     = (m_viewport s \<noteq> viewport \<and> sk_Intersects (m_viewport s) viewport)"
    by (simp add: setViewport_def)
  show ?thesis
    using flag sk_Intersects_geometric [of "m_viewport s" viewport] by blast
qed

text \<open>
  From a stored viewport (0, 0, 100, 100) at scale 1: the same pair again clears the flag,
  a disjoint rectangle clears it, an overlapping different rectangle sets it.
\<close>

theorem setViewport_isViewportScrolling_witness:
  "m_viewport (GLWebViewState_new\<lparr>m_viewport := \<lparr>fLeft = 0, fTop = 0, fRight = 100, fBottom = 100\<rparr>\<rparr>) = \<lparr>fLeft = 0, fTop = 0, fRight = 100, fBottom = 100\<rparr> \<and> m_scale (GLWebViewState_new\<lparr>m_viewport := \<lparr>fLeft = 0, fTop = 0, fRight = 100, fBottom = 100\<rparr>\<rparr>) = 1
   \<and> \<not> m_isViewportScrolling (setViewport (GLWebViewState_new\<lparr>m_viewport := \<lparr>fLeft = 0, fTop = 0, fRight = 100, fBottom = 100\<rparr>\<rparr>) \<lparr>fLeft = 0, fTop = 0, fRight = 100, fBottom = 100\<rparr> 1)
   \<and> \<not> sk_Intersects (m_viewport (GLWebViewState_new\<lparr>m_viewport := \<lparr>fLeft = 0, fTop = 0, fRight = 100, fBottom = 100\<rparr>\<rparr>)) \<lparr>fLeft = 200, fTop = 200, fRight = 300, fBottom = 300\<rparr>
   \<and> \<not> m_isViewportScrolling (setViewport (GLWebViewState_new\<lparr>m_viewport := \<lparr>fLeft = 0, fTop = 0, fRight = 100, fBottom = 100\<rparr>\<rparr>) \<lparr>fLeft = 200, fTop = 200, fRight = 300, fBottom = 300\<rparr> 1)
   \<and> m_isViewportScrolling (setViewport (GLWebViewState_new\<lparr>m_viewport := \<lparr>fLeft = 0, fTop = 0, fRight = 100, fBottom = 100\<rparr>\<rparr>) \<lparr>fLeft = 10, fTop = 10, fRight = 110, fBottom = 110\<rparr> 1)"
proof -
  have same: "m_viewport (GLWebViewState_new\<lparr>m_viewport := \<lparr>fLeft = 0, fTop = 0, fRight = 100, fBottom = 100\<rparr>\<rparr>) = \<lparr>fLeft = 0, fTop = 0, fRight = 100, fBottom = 100\<rparr> \<and> m_scale (GLWebViewState_new\<lparr>m_viewport := \<lparr>fLeft = 0, fTop = 0, fRight = 100, fBottom = 100\<rparr>\<rparr>) = 1"
    by (simp add: GLWebViewState_new_def)
  have far: "\<not> sk_Intersects (m_viewport (GLWebViewState_new\<lparr>m_viewport := \<lparr>fLeft = 0, fTop = 0, fRight = 100, fBottom = 100\<rparr>\<rparr>)) \<lparr>fLeft = 200, fTop = 200, fRight = 300, fBottom = 300\<rparr>"
    by (simp add: sk_Intersects_def sk_isEmpty_def)
  have near: "m_viewport (GLWebViewState_new\<lparr>m_viewport := \<lparr>fLeft = 0, fTop = 0, fRight = 100, fBottom = 100\<rparr>\<rparr>) \<noteq> \<lparr>fLeft = 10, fTop = 10, fRight = 110, fBottom = 110\<rparr> \<and> sk_Intersects (m_viewport (GLWebViewState_new\<lparr>m_viewport := \<lparr>fLeft = 0, fTop = 0, fRight = 100, fBottom = 100\<rparr>\<rparr>)) \<lparr>fLeft = 10, fTop = 10, fRight = 110, fBottom = 110\<rparr>"
    by (simp add: sk_Intersects_def sk_isEmpty_def)
  from same far near
    setViewport_isViewportScrolling [of "(GLWebViewState_new\<lparr>m_viewport := \<lparr>fLeft = 0, fTop = 0, fRight = 100, fBottom = 100\<rparr>\<rparr>)" "\<lparr>fLeft = 0, fTop = 0, fRight = 100, fBottom = 100\<rparr>" 1]
    setViewport_isViewportScrolling [of "(GLWebViewState_new\<lparr>m_viewport := \<lparr>fLeft = 0, fTop = 0, fRight = 100, fBottom = 100\<rparr>\<rparr>)" "\<lparr>fLeft = 200, fTop = 200, fRight = 300, fBottom = 300\<rparr>" 1]
    setViewport_isViewportScrolling [of "(GLWebViewState_new\<lparr>m_viewport := \<lparr>fLeft = 0, fTop = 0, fRight = 100, fBottom = 100\<rparr>\<rparr>)" "\<lparr>fLeft = 10, fTop = 10, fRight = 110, fBottom = 110\<rparr>" 1]
  show ?thesis by blast
qed

section \<open>The rendering mode as state\<close>

text \<open>
  C9, as stated, fails: \<open>setBaseLayer\<close> is not the selector and writes the stored rendering
  mode. Called with a null layer on a state in \<open>kSingleSurfaceRendering\<close> it leaves the
  mode \<open>kAllTextures\<close>.
\<close>

theorem setBaseLayer_resets_mode_counterexample:
  "m_layersRenderingMode (fst (setBaseLayer (GLWebViewState_new\<lparr>m_layersRenderingMode := kSingleSurfaceRendering\<rparr>) (None :: unit option) False False False))
     = kAllTextures
   \<and> m_layersRenderingMode (fst (setBaseLayer (GLWebViewState_new\<lparr>m_layersRenderingMode := kSingleSurfaceRendering\<rparr>) (None :: unit option) False False False))
     \<noteq> m_layersRenderingMode (GLWebViewState_new\<lparr>m_layersRenderingMode := kSingleSurfaceRendering\<rparr>)"
  by (simp add: setBaseLayer_def)

text \<open>
  C9, amended. The rendering mode is state of the object, carried from call to call. It is
  written by the selector \<open>setLayersRenderingMode\<close> (also when \<open>drawGL\<close> runs it) and by
  \<open>setBaseLayer\<close>, which sets it to \<open>kAllTextures\<close> when the layer is null or the picture
  is the first after layout and leaves it unchanged otherwise. \<open>scrollLayer\<close>,
  \<open>setViewport\<close>, \<open>addDirtyArea\<close>, \<open>resetLayersDirtyArea\<close> and \<open>setupDrawing\<close> leave it
  unchanged, and a run of \<open>drawGL\<close> leaves the mode that the selector computes from the
  mode on entry.
\<close>

theorem rendering_mode_writers:
  "m_layersRenderingMode (fst (setBaseLayer s layer showVisualIndicator first queueFull))
     = (if layer = None \<or> first then kAllTextures else m_layersRenderingMode s)
   \<and> m_layersRenderingMode (scrollLayer s layerId x y) = m_layersRenderingMode s
   \<and> m_layersRenderingMode (setViewport s viewport scale) = m_layersRenderingMode s
   \<and> m_layersRenderingMode (addDirtyArea s dirtyRect) = m_layersRenderingMode s
   \<and> m_layersRenderingMode (resetLayersDirtyArea s) = m_layersRenderingMode s
   \<and> m_layersRenderingMode (fst (setupDrawing s viewport scale currentTime))
       = m_layersRenderingMode s
   \<and> (\<forall>r. drawGL s env rect viewport invalRect scale shouldDraw = Returned r \<longrightarrow>
        m_layersRenderingMode (dr_state r) =
          m_layersRenderingMode
            (fst (setLayersRenderingMode (env_maxLayerTextureCount env) s (demandWithImages env))))"
proof -
  have ops: "m_layersRenderingMode (fst (setBaseLayer s layer showVisualIndicator first queueFull))
     = (if layer = None \<or> first then kAllTextures else m_layersRenderingMode s)"
    "m_layersRenderingMode (scrollLayer s layerId x y) = m_layersRenderingMode s"
    "m_layersRenderingMode (setViewport s viewport scale) = m_layersRenderingMode s"
    "m_layersRenderingMode (addDirtyArea s dirtyRect) = m_layersRenderingMode s"
    "m_layersRenderingMode (resetLayersDirtyArea s) = m_layersRenderingMode s"
    "m_layersRenderingMode (fst (setupDrawing s viewport scale currentTime))
       = m_layersRenderingMode s"
    by (simp_all add: setBaseLayer_def scrollLayer_def addDirtyArea_region
        resetLayersDirtyArea_region setupDrawing_def)
  have draw: "\<forall>r. drawGL s env rect viewport invalRect scale shouldDraw = Returned r \<longrightarrow>
        m_layersRenderingMode (dr_state r) =
          m_layersRenderingMode
            (fst (setLayersRenderingMode (env_maxLayerTextureCount env) s (demandWithImages env)))"
    by (auto simp add: drawGL_cases drawGL_draw_mode committed_mode split: if_splits)
  from ops draw show ?thesis by blast
qed

text \<open>
  \<open>setBaseLayer\<close> with a layer on a state in \<open>kClippedTextures\<close>: the mode stays when the
  picture is not the first after layout and becomes \<open>kAllTextures\<close> when it is. A run of
  \<open>drawGL\<close> on a fresh object with demand above the budget returns and leaves
  \<open>kSingleSurfaceRendering\<close>.
\<close>

theorem rendering_mode_writers_witness:
  "m_layersRenderingMode (fst (setBaseLayer (GLWebViewState_new\<lparr>m_layersRenderingMode := kClippedTextures\<rparr>) (Some ()) False False True))
     = kClippedTextures
   \<and> m_layersRenderingMode (fst (setBaseLayer (GLWebViewState_new\<lparr>m_layersRenderingMode := kClippedTextures\<rparr>) (Some ()) False True True))
     = kAllTextures
   \<and> is_Returned (drawGL GLWebViewState_new
       \<lparr>env_prepareTextures = False, env_imagesDirty = [], env_currentTime = 0,
        env_collectionFlags = 0, env_layersDirty = [],
        env_nbTexturesNeeded = \<lparr>fixed = 12, scrollable = 14, clipped = 18, full = 25\<rparr>,
        env_collectionsSwapped = False, env_newCollectionHasAnim = False,
        env_nbTexturesForImages = 0, env_maxLayerTextureCount = 10\<rparr>
       \<lparr>ir_x = 0, ir_y = 0, ir_width = 100, ir_height = 100\<rparr>
       \<lparr>fLeft = 0, fTop = 0, fRight = 100, fBottom = 100\<rparr>
       \<lparr>ir_x = 7, ir_y = 7, ir_width = 7, ir_height = 7\<rparr> 1 True)
   \<and> m_layersRenderingMode (dr_state (returned (drawGL GLWebViewState_new
       \<lparr>env_prepareTextures = False, env_imagesDirty = [], env_currentTime = 0,
        env_collectionFlags = 0, env_layersDirty = [],
        env_nbTexturesNeeded = \<lparr>fixed = 12, scrollable = 14, clipped = 18, full = 25\<rparr>,
        env_collectionsSwapped = False, env_newCollectionHasAnim = False,
        env_nbTexturesForImages = 0, env_maxLayerTextureCount = 10\<rparr>
       \<lparr>ir_x = 0, ir_y = 0, ir_width = 100, ir_height = 100\<rparr>
       \<lparr>fLeft = 0, fTop = 0, fRight = 100, fBottom = 100\<rparr>
       \<lparr>ir_x = 7, ir_y = 7, ir_width = 7, ir_height = 7\<rparr> 1 True)))
     = kSingleSurfaceRendering"
proof -
  have ret: "is_Returned (drawGL GLWebViewState_new
       \<lparr>env_prepareTextures = False, env_imagesDirty = [], env_currentTime = 0,
        env_collectionFlags = 0, env_layersDirty = [],
        env_nbTexturesNeeded = \<lparr>fixed = 12, scrollable = 14, clipped = 18, full = 25\<rparr>,
        env_collectionsSwapped = False, env_newCollectionHasAnim = False,
        env_nbTexturesForImages = 0, env_maxLayerTextureCount = 10\<rparr>
       \<lparr>ir_x = 0, ir_y = 0, ir_width = 100, ir_height = 100\<rparr>
       \<lparr>fLeft = 0, fTop = 0, fRight = 100, fBottom = 100\<rparr>
       \<lparr>ir_x = 7, ir_y = 7, ir_width = 7, ir_height = 7\<rparr> 1 True)"
    by (simp add: drawGL_cases scaleOutOfRange_def)
  then have eq: "drawGL GLWebViewState_new
       \<lparr>env_prepareTextures = False, env_imagesDirty = [], env_currentTime = 0,
        env_collectionFlags = 0, env_layersDirty = [],
        env_nbTexturesNeeded = \<lparr>fixed = 12, scrollable = 14, clipped = 18, full = 25\<rparr>,
        env_collectionsSwapped = False, env_newCollectionHasAnim = False,
        env_nbTexturesForImages = 0, env_maxLayerTextureCount = 10\<rparr>
       \<lparr>ir_x = 0, ir_y = 0, ir_width = 100, ir_height = 100\<rparr>
       \<lparr>fLeft = 0, fTop = 0, fRight = 100, fBottom = 100\<rparr>
       \<lparr>ir_x = 7, ir_y = 7, ir_width = 7, ir_height = 7\<rparr> 1 True
     = Returned (returned (drawGL GLWebViewState_new
       \<lparr>env_prepareTextures = False, env_imagesDirty = [], env_currentTime = 0,
        env_collectionFlags = 0, env_layersDirty = [],
        env_nbTexturesNeeded = \<lparr>fixed = 12, scrollable = 14, clipped = 18, full = 25\<rparr>,
        env_collectionsSwapped = False, env_newCollectionHasAnim = False,
        env_nbTexturesForImages = 0, env_maxLayerTextureCount = 10\<rparr>
       \<lparr>ir_x = 0, ir_y = 0, ir_width = 100, ir_height = 100\<rparr>
       \<lparr>fLeft = 0, fTop = 0, fRight = 100, fBottom = 100\<rparr>
       \<lparr>ir_x = 7, ir_y = 7, ir_width = 7, ir_height = 7\<rparr> 1 True))"
    by simp
  have sel: "m_layersRenderingMode (fst (setLayersRenderingMode 10 GLWebViewState_new
      (demandWithImages
        (\<lparr>env_prepareTextures = False, env_imagesDirty = [], env_currentTime = 0,
        env_collectionFlags = 0, env_layersDirty = [],
        env_nbTexturesNeeded = \<lparr>fixed = 12, scrollable = 14, clipped = 18, full = 25\<rparr>,
        env_collectionsSwapped = False, env_newCollectionHasAnim = False,
        env_nbTexturesForImages = 0, env_maxLayerTextureCount = 10\<rparr>))))
     = kSingleSurfaceRendering"
    by (simp add: committed_mode candidateMode_cases clampMode_def maxTexturesForTests_def
        demandWithImages_def GLWebViewState_new_def)
  from ret eq sel
    rendering_mode_writers [of "(GLWebViewState_new\<lparr>m_layersRenderingMode := kClippedTextures\<rparr>)" "Some ()" False False True]
    rendering_mode_writers [of "(GLWebViewState_new\<lparr>m_layersRenderingMode := kClippedTextures\<rparr>)" "Some ()" False True True]
    rendering_mode_writers [of GLWebViewState_new "None :: unit option" False False False
      0 0 0 "\<lparr>fLeft = 0, fTop = 0, fRight = 100, fBottom = 100\<rparr>" 1 "\<lparr>ir_x = 7, ir_y = 7, ir_width = 7, ir_height = 7\<rparr>" 0
      "\<lparr>env_prepareTextures = False, env_imagesDirty = [], env_currentTime = 0,
        env_collectionFlags = 0, env_layersDirty = [],
        env_nbTexturesNeeded = \<lparr>fixed = 12, scrollable = 14, clipped = 18, full = 25\<rparr>,
        env_collectionsSwapped = False, env_newCollectionHasAnim = False,
        env_nbTexturesForImages = 0, env_maxLayerTextureCount = 10\<rparr>"
      "\<lparr>ir_x = 0, ir_y = 0, ir_width = 100, ir_height = 100\<rparr>" "\<lparr>ir_x = 7, ir_y = 7, ir_width = 7, ir_height = 7\<rparr>" True]
  show ?thesis by simp
qed


section \<open>One frame: drawGL\<close>

text \<open>
  C6. \<open>drawGL\<close> aborts the process exactly when the scale is outside [0.1, 10], and the
  abort is raised by the check after the uploads: the check before the uploads only logs
  its warning, the tile upload and the image upload run, and then the second check logs
  and aborts. A run that returns has logged no warning. Both checks read the same
  parameter, so a scale that fails the first check fails the second.
\<close>

theorem drawGL_abort_only_after_upload:
  "(is_Crashed (drawGL s env rect viewport invalRect scale shouldDraw)
      \<longleftrightarrow> (scale < 1 / 10 \<or> scale > 10))
   \<and> (scale < 1 / 10 \<or> scale > 10 \<longrightarrow>
        drawGL s env rect viewport invalRect scale shouldDraw =
          Crashed ((if shouldDraw then [EvProfilerNextFrame] else [])
            @ [EvIncDrawGLCount, EvResetLayersDirtyArea, EvWarnScaleBeforeUpdate,
               EvUpdateDirtyTiles, EvPrepareTextures]
            @ map EvAddDirtyArea (env_imagesDirty env)
            @ [EvWarnScaleAfterUpdate, EvCrash]))
   \<and> (\<forall>r. drawGL s env rect viewport invalRect scale shouldDraw = Returned r \<longrightarrow>
        EvCrash \<notin> set (dr_events r) \<and> EvWarnScaleBeforeUpdate \<notin> set (dr_events r)
        \<and> EvWarnScaleAfterUpdate \<notin> set (dr_events r))"
proof -
  have a: "is_Crashed (drawGL s env rect viewport invalRect scale shouldDraw)
      \<longleftrightarrow> (scale < 1 / 10 \<or> scale > 10)"
    by (simp add: drawGL_cases scaleOutOfRange_def)
  have b: "scale < 1 / 10 \<or> scale > 10 \<longrightarrow>
        drawGL s env rect viewport invalRect scale shouldDraw =
          Crashed ((if shouldDraw then [EvProfilerNextFrame] else [])
            @ [EvIncDrawGLCount, EvResetLayersDirtyArea, EvWarnScaleBeforeUpdate,
               EvUpdateDirtyTiles, EvPrepareTextures]
            @ map EvAddDirtyArea (env_imagesDirty env)
            @ [EvWarnScaleAfterUpdate, EvCrash])"
    by (simp add: drawGL_cases scaleOutOfRange_def)
  have c: "\<forall>r. drawGL s env rect viewport invalRect scale shouldDraw = Returned r \<longrightarrow>
        EvCrash \<notin> set (dr_events r) \<and> EvWarnScaleBeforeUpdate \<notin> set (dr_events r)
        \<and> EvWarnScaleAfterUpdate \<notin> set (dr_events r)"
    by (auto simp add: drawGL_cases drawGL_draw_events split: if_splits)
  from a b c show ?thesis by blast
qed

text \<open>
  At scale 20 the run is the trace of a warning, the two uploads, the second warning and
  the abort; at scale 1 the run returns without the abort event.
\<close>

theorem drawGL_abort_only_after_upload_witness:
  "((20 :: real) < 1 / 10 \<or> (20 :: real) > 10)
   \<and> drawGL GLWebViewState_new
       \<lparr>env_prepareTextures = False, env_imagesDirty = [], env_currentTime = 0,
        env_collectionFlags = 0, env_layersDirty = [],
        env_nbTexturesNeeded = \<lparr>fixed = 0, scrollable = 0, clipped = 0, full = 0\<rparr>,
        env_collectionsSwapped = False, env_newCollectionHasAnim = False,
        env_nbTexturesForImages = 0, env_maxLayerTextureCount = 0\<rparr>
       \<lparr>ir_x = 0, ir_y = 0, ir_width = 100, ir_height = 100\<rparr>
       \<lparr>fLeft = 0, fTop = 0, fRight = 100, fBottom = 100\<rparr>
       \<lparr>ir_x = 7, ir_y = 7, ir_width = 7, ir_height = 7\<rparr> 20 True =
       Crashed [EvProfilerNextFrame, EvIncDrawGLCount, EvResetLayersDirtyArea,
                EvWarnScaleBeforeUpdate, EvUpdateDirtyTiles, EvPrepareTextures,
                EvWarnScaleAfterUpdate, EvCrash]
   \<and> is_Returned (drawGL GLWebViewState_new
       \<lparr>env_prepareTextures = False, env_imagesDirty = [], env_currentTime = 0,
        env_collectionFlags = 0, env_layersDirty = [],
        env_nbTexturesNeeded = \<lparr>fixed = 0, scrollable = 0, clipped = 0, full = 0\<rparr>,
        env_collectionsSwapped = False, env_newCollectionHasAnim = False,
        env_nbTexturesForImages = 0, env_maxLayerTextureCount = 0\<rparr>
       \<lparr>ir_x = 0, ir_y = 0, ir_width = 100, ir_height = 100\<rparr>
       \<lparr>fLeft = 0, fTop = 0, fRight = 100, fBottom = 100\<rparr>
       \<lparr>ir_x = 7, ir_y = 7, ir_width = 7, ir_height = 7\<rparr> 1 True)
   \<and> EvCrash \<notin> set (dr_events (returned (drawGL GLWebViewState_new
       \<lparr>env_prepareTextures = False, env_imagesDirty = [], env_currentTime = 0,
        env_collectionFlags = 0, env_layersDirty = [],
        env_nbTexturesNeeded = \<lparr>fixed = 0, scrollable = 0, clipped = 0, full = 0\<rparr>,
        env_collectionsSwapped = False, env_newCollectionHasAnim = False,
        env_nbTexturesForImages = 0, env_maxLayerTextureCount = 0\<rparr>
       \<lparr>ir_x = 0, ir_y = 0, ir_width = 100, ir_height = 100\<rparr>
       \<lparr>fLeft = 0, fTop = 0, fRight = 100, fBottom = 100\<rparr>
       \<lparr>ir_x = 7, ir_y = 7, ir_width = 7, ir_height = 7\<rparr> 1 True)))"
proof -
  have out: "(20 :: real) < 1 / 10 \<or> (20 :: real) > 10"
    by simp
  have ret: "is_Returned (drawGL GLWebViewState_new
       \<lparr>env_prepareTextures = False, env_imagesDirty = [], env_currentTime = 0,
        env_collectionFlags = 0, env_layersDirty = [],
        env_nbTexturesNeeded = \<lparr>fixed = 0, scrollable = 0, clipped = 0, full = 0\<rparr>,
        env_collectionsSwapped = False, env_newCollectionHasAnim = False,
        env_nbTexturesForImages = 0, env_maxLayerTextureCount = 0\<rparr>
       \<lparr>ir_x = 0, ir_y = 0, ir_width = 100, ir_height = 100\<rparr>
       \<lparr>fLeft = 0, fTop = 0, fRight = 100, fBottom = 100\<rparr>
       \<lparr>ir_x = 7, ir_y = 7, ir_width = 7, ir_height = 7\<rparr> 1 True)"
    by (simp add: drawGL_cases scaleOutOfRange_def)
  then have eq: "drawGL GLWebViewState_new
       \<lparr>env_prepareTextures = False, env_imagesDirty = [], env_currentTime = 0,
        env_collectionFlags = 0, env_layersDirty = [],
        env_nbTexturesNeeded = \<lparr>fixed = 0, scrollable = 0, clipped = 0, full = 0\<rparr>,
        env_collectionsSwapped = False, env_newCollectionHasAnim = False,
        env_nbTexturesForImages = 0, env_maxLayerTextureCount = 0\<rparr>
       \<lparr>ir_x = 0, ir_y = 0, ir_width = 100, ir_height = 100\<rparr>
       \<lparr>fLeft = 0, fTop = 0, fRight = 100, fBottom = 100\<rparr>
       \<lparr>ir_x = 7, ir_y = 7, ir_width = 7, ir_height = 7\<rparr> 1 True
     = Returned (returned (drawGL GLWebViewState_new
       \<lparr>env_prepareTextures = False, env_imagesDirty = [], env_currentTime = 0,
        env_collectionFlags = 0, env_layersDirty = [],
        env_nbTexturesNeeded = \<lparr>fixed = 0, scrollable = 0, clipped = 0, full = 0\<rparr>,
        env_collectionsSwapped = False, env_newCollectionHasAnim = False,
        env_nbTexturesForImages = 0, env_maxLayerTextureCount = 0\<rparr>
       \<lparr>ir_x = 0, ir_y = 0, ir_width = 100, ir_height = 100\<rparr>
       \<lparr>fLeft = 0, fTop = 0, fRight = 100, fBottom = 100\<rparr>
       \<lparr>ir_x = 7, ir_y = 7, ir_width = 7, ir_height = 7\<rparr> 1 True))"
    by simp
  from out ret eq
    drawGL_abort_only_after_upload [of GLWebViewState_new
      "\<lparr>env_prepareTextures = False, env_imagesDirty = [], env_currentTime = 0,
        env_collectionFlags = 0, env_layersDirty = [],
        env_nbTexturesNeeded = \<lparr>fixed = 0, scrollable = 0, clipped = 0, full = 0\<rparr>,
        env_collectionsSwapped = False, env_newCollectionHasAnim = False,
        env_nbTexturesForImages = 0, env_maxLayerTextureCount = 0\<rparr>"
      "\<lparr>ir_x = 0, ir_y = 0, ir_width = 100, ir_height = 100\<rparr>" "\<lparr>fLeft = 0, fTop = 0, fRight = 100, fBottom = 100\<rparr>" "\<lparr>ir_x = 7, ir_y = 7, ir_width = 7, ir_height = 7\<rparr>" 20 True]
    drawGL_abort_only_after_upload [of GLWebViewState_new
      "\<lparr>env_prepareTextures = False, env_imagesDirty = [], env_currentTime = 0,
        env_collectionFlags = 0, env_layersDirty = [],
        env_nbTexturesNeeded = \<lparr>fixed = 0, scrollable = 0, clipped = 0, full = 0\<rparr>,
        env_collectionsSwapped = False, env_newCollectionHasAnim = False,
        env_nbTexturesForImages = 0, env_maxLayerTextureCount = 0\<rparr>"
      "\<lparr>ir_x = 0, ir_y = 0, ir_width = 100, ir_height = 100\<rparr>" "\<lparr>fLeft = 0, fTop = 0, fRight = 100, fBottom = 100\<rparr>" "\<lparr>ir_x = 7, ir_y = 7, ir_width = 7, ir_height = 7\<rparr>" 1 True]
  show ?thesis by simp
qed

text \<open>
  C8. Every run of \<open>drawGL\<close> resets the accumulated dirty region exactly once, as its
  first step after the profiling counters and before any dirty report of that frame is
  taken; on return the region is what the reports of that frame alone accumulate (outset by
  1 when the invalidation rectangle was computed from it), whatever it was on entry. No
  other operation clears it: \<open>setBaseLayer\<close>, \<open>scrollLayer\<close>, \<open>setViewport\<close>,
  \<open>setupDrawing\<close> and \<open>setLayersRenderingMode\<close> leave it as it is and \<open>addDirtyArea\<close>
  never turns a non-empty region into an empty one.
\<close>

theorem dirty_region_reset_once:
  "(\<exists>post. outcomeEvents (drawGL s env rect viewport invalRect scale shouldDraw) =
        (if shouldDraw then [EvProfilerNextFrame] else [])
        @ [EvIncDrawGLCount, EvResetLayersDirtyArea] @ post
      \<and> EvResetLayersDirtyArea \<notin> set post)
   \<and> (\<forall>r. drawGL s env rect viewport invalRect scale shouldDraw = Returned r \<longrightarrow>
        m_frameworkLayersInval (dr_state r) =
          (let d = spec_accumulated (env_imagesDirty env @ env_layersDirty env)
           in if dr_returnFlags r AND kStatusDraw \<noteq> 0 \<and> \<not> ir_isEmpty d
              then inflate 1 d else d))
   \<and> ir_isEmpty (m_frameworkLayersInval (resetLayersDirtyArea s))
   \<and> m_frameworkLayersInval (fst (setBaseLayer s layer showVisualIndicator first queueFull))
       = m_frameworkLayersInval s
   \<and> m_frameworkLayersInval (scrollLayer s layerId x y) = m_frameworkLayersInval s
   \<and> m_frameworkLayersInval (setViewport s viewport scale) = m_frameworkLayersInval s
   \<and> m_frameworkLayersInval (fst (setupDrawing s viewport scale currentTime))
       = m_frameworkLayersInval s
   \<and> m_frameworkLayersInval (fst (setLayersRenderingMode readBack s nb))
       = m_frameworkLayersInval s
   \<and> (\<not> ir_isEmpty (m_frameworkLayersInval s) \<longrightarrow>
        \<not> ir_isEmpty (m_frameworkLayersInval (addDirtyArea s dirtyRect)))"
proof -
  have ev: "\<exists>post. outcomeEvents (drawGL s env rect viewport invalRect scale shouldDraw) =
        (if shouldDraw then [EvProfilerNextFrame] else [])
        @ [EvIncDrawGLCount, EvResetLayersDirtyArea] @ post
      \<and> EvResetLayersDirtyArea \<notin> set post"
    by (simp add: drawGL_events) auto
  have reg: "\<forall>r. drawGL s env rect viewport invalRect scale shouldDraw = Returned r \<longrightarrow>
        m_frameworkLayersInval (dr_state r) =
          (let d = spec_accumulated (env_imagesDirty env @ env_layersDirty env)
           in if dr_returnFlags r AND kStatusDraw \<noteq> 0 \<and> \<not> ir_isEmpty d
              then inflate 1 d else d)"
    using drawGL_region by blast
  have others: "ir_isEmpty (m_frameworkLayersInval (resetLayersDirtyArea s))"
    "m_frameworkLayersInval (fst (setBaseLayer s layer showVisualIndicator first queueFull))
       = m_frameworkLayersInval s"
    "m_frameworkLayersInval (scrollLayer s layerId x y) = m_frameworkLayersInval s"
    "m_frameworkLayersInval (setViewport s viewport scale) = m_frameworkLayersInval s"
    "m_frameworkLayersInval (fst (setupDrawing s viewport scale currentTime))
       = m_frameworkLayersInval s"
    "m_frameworkLayersInval (fst (setLayersRenderingMode readBack s nb))
       = m_frameworkLayersInval s"
    by (simp_all add: resetLayersDirtyArea_region zeroRect_def ir_isEmpty_def setBaseLayer_def
        scrollLayer_def setupDrawing_def)
  have add: "\<not> ir_isEmpty (m_frameworkLayersInval s) \<longrightarrow>
        \<not> ir_isEmpty (m_frameworkLayersInval (addDirtyArea s dirtyRect))"
    by (simp add: addDirtyArea_region spec_report_nonempty)
  from ev reg others add show ?thesis by blast
qed

text \<open>
  A run that starts with a non-empty region (0, 0, 10, 10) and takes one report
  (50, 50, 10, 10) returns with the report outset by 8, and nothing of the old region; a
  report added to the non-empty region leaves it non-empty.
\<close>

theorem dirty_region_reset_once_witness:
  "\<not> ir_isEmpty (m_frameworkLayersInval (GLWebViewState_new\<lparr>m_frameworkLayersInval := \<lparr>ir_x = 0, ir_y = 0, ir_width = 10, ir_height = 10\<rparr>\<rparr>))
   \<and> is_Returned (drawGL (GLWebViewState_new\<lparr>m_frameworkLayersInval := \<lparr>ir_x = 0, ir_y = 0, ir_width = 10, ir_height = 10\<rparr>\<rparr>)
       \<lparr>env_prepareTextures = False, env_imagesDirty = [], env_currentTime = 0,
        env_collectionFlags = 0, env_layersDirty = [\<lparr>ir_x = 50, ir_y = 50, ir_width = 10, ir_height = 10\<rparr>],
        env_nbTexturesNeeded = \<lparr>fixed = 0, scrollable = 0, clipped = 0, full = 0\<rparr>,
        env_collectionsSwapped = False, env_newCollectionHasAnim = False,
        env_nbTexturesForImages = 0, env_maxLayerTextureCount = 0\<rparr>
       \<lparr>ir_x = 0, ir_y = 0, ir_width = 100, ir_height = 100\<rparr>
       \<lparr>fLeft = 0, fTop = 0, fRight = 100, fBottom = 100\<rparr>
       \<lparr>ir_x = 7, ir_y = 7, ir_width = 7, ir_height = 7\<rparr> 1 True)
   \<and> dr_returnFlags (returned (drawGL (GLWebViewState_new\<lparr>m_frameworkLayersInval := \<lparr>ir_x = 0, ir_y = 0, ir_width = 10, ir_height = 10\<rparr>\<rparr>)
       \<lparr>env_prepareTextures = False, env_imagesDirty = [], env_currentTime = 0,
        env_collectionFlags = 0, env_layersDirty = [\<lparr>ir_x = 50, ir_y = 50, ir_width = 10, ir_height = 10\<rparr>],
        env_nbTexturesNeeded = \<lparr>fixed = 0, scrollable = 0, clipped = 0, full = 0\<rparr>,
        env_collectionsSwapped = False, env_newCollectionHasAnim = False,
        env_nbTexturesForImages = 0, env_maxLayerTextureCount = 0\<rparr>
       \<lparr>ir_x = 0, ir_y = 0, ir_width = 100, ir_height = 100\<rparr>
       \<lparr>fLeft = 0, fTop = 0, fRight = 100, fBottom = 100\<rparr>
       \<lparr>ir_x = 7, ir_y = 7, ir_width = 7, ir_height = 7\<rparr> 1 True)) AND kStatusDraw = 0
   \<and> m_frameworkLayersInval (dr_state (returned (drawGL (GLWebViewState_new\<lparr>m_frameworkLayersInval := \<lparr>ir_x = 0, ir_y = 0, ir_width = 10, ir_height = 10\<rparr>\<rparr>)
       \<lparr>env_prepareTextures = False, env_imagesDirty = [], env_currentTime = 0,
        env_collectionFlags = 0, env_layersDirty = [\<lparr>ir_x = 50, ir_y = 50, ir_width = 10, ir_height = 10\<rparr>],
        env_nbTexturesNeeded = \<lparr>fixed = 0, scrollable = 0, clipped = 0, full = 0\<rparr>,
        env_collectionsSwapped = False, env_newCollectionHasAnim = False,
        env_nbTexturesForImages = 0, env_maxLayerTextureCount = 0\<rparr>
       \<lparr>ir_x = 0, ir_y = 0, ir_width = 100, ir_height = 100\<rparr>
       \<lparr>fLeft = 0, fTop = 0, fRight = 100, fBottom = 100\<rparr>
       \<lparr>ir_x = 7, ir_y = 7, ir_width = 7, ir_height = 7\<rparr> 1 True)))
       = \<lparr>ir_x = 42, ir_y = 42, ir_width = 26, ir_height = 26\<rparr>
   \<and> \<not> ir_isEmpty (m_frameworkLayersInval (addDirtyArea (GLWebViewState_new\<lparr>m_frameworkLayersInval := \<lparr>ir_x = 0, ir_y = 0, ir_width = 10, ir_height = 10\<rparr>\<rparr>) \<lparr>ir_x = 7, ir_y = 7, ir_width = 7, ir_height = 7\<rparr>))"
proof -
  have ne: "\<not> ir_isEmpty (m_frameworkLayersInval (GLWebViewState_new\<lparr>m_frameworkLayersInval := \<lparr>ir_x = 0, ir_y = 0, ir_width = 10, ir_height = 10\<rparr>\<rparr>))"
    by (simp add: ir_isEmpty_def)
  have ret: "is_Returned (drawGL (GLWebViewState_new\<lparr>m_frameworkLayersInval := \<lparr>ir_x = 0, ir_y = 0, ir_width = 10, ir_height = 10\<rparr>\<rparr>)
       \<lparr>env_prepareTextures = False, env_imagesDirty = [], env_currentTime = 0,
        env_collectionFlags = 0, env_layersDirty = [\<lparr>ir_x = 50, ir_y = 50, ir_width = 10, ir_height = 10\<rparr>],
        env_nbTexturesNeeded = \<lparr>fixed = 0, scrollable = 0, clipped = 0, full = 0\<rparr>,
        env_collectionsSwapped = False, env_newCollectionHasAnim = False,
        env_nbTexturesForImages = 0, env_maxLayerTextureCount = 0\<rparr>
       \<lparr>ir_x = 0, ir_y = 0, ir_width = 100, ir_height = 100\<rparr>
       \<lparr>fLeft = 0, fTop = 0, fRight = 100, fBottom = 100\<rparr>
       \<lparr>ir_x = 7, ir_y = 7, ir_width = 7, ir_height = 7\<rparr> 1 True)"
    by (simp add: drawGL_cases scaleOutOfRange_def)
  then have eq: "drawGL (GLWebViewState_new\<lparr>m_frameworkLayersInval := \<lparr>ir_x = 0, ir_y = 0, ir_width = 10, ir_height = 10\<rparr>\<rparr>)
       \<lparr>env_prepareTextures = False, env_imagesDirty = [], env_currentTime = 0,
        env_collectionFlags = 0, env_layersDirty = [\<lparr>ir_x = 50, ir_y = 50, ir_width = 10, ir_height = 10\<rparr>],
        env_nbTexturesNeeded = \<lparr>fixed = 0, scrollable = 0, clipped = 0, full = 0\<rparr>,
        env_collectionsSwapped = False, env_newCollectionHasAnim = False,
        env_nbTexturesForImages = 0, env_maxLayerTextureCount = 0\<rparr>
       \<lparr>ir_x = 0, ir_y = 0, ir_width = 100, ir_height = 100\<rparr>
       \<lparr>fLeft = 0, fTop = 0, fRight = 100, fBottom = 100\<rparr>
       \<lparr>ir_x = 7, ir_y = 7, ir_width = 7, ir_height = 7\<rparr> 1 True
     = Returned (returned (drawGL (GLWebViewState_new\<lparr>m_frameworkLayersInval := \<lparr>ir_x = 0, ir_y = 0, ir_width = 10, ir_height = 10\<rparr>\<rparr>)
       \<lparr>env_prepareTextures = False, env_imagesDirty = [], env_currentTime = 0,
        env_collectionFlags = 0, env_layersDirty = [\<lparr>ir_x = 50, ir_y = 50, ir_width = 10, ir_height = 10\<rparr>],
        env_nbTexturesNeeded = \<lparr>fixed = 0, scrollable = 0, clipped = 0, full = 0\<rparr>,
        env_collectionsSwapped = False, env_newCollectionHasAnim = False,
        env_nbTexturesForImages = 0, env_maxLayerTextureCount = 0\<rparr>
       \<lparr>ir_x = 0, ir_y = 0, ir_width = 100, ir_height = 100\<rparr>
       \<lparr>fLeft = 0, fTop = 0, fRight = 100, fBottom = 100\<rparr>
       \<lparr>ir_x = 7, ir_y = 7, ir_width = 7, ir_height = 7\<rparr> 1 True))"
    by simp
  have fl: "dr_returnFlags (returned (drawGL (GLWebViewState_new\<lparr>m_frameworkLayersInval := \<lparr>ir_x = 0, ir_y = 0, ir_width = 10, ir_height = 10\<rparr>\<rparr>)
       \<lparr>env_prepareTextures = False, env_imagesDirty = [], env_currentTime = 0,
        env_collectionFlags = 0, env_layersDirty = [\<lparr>ir_x = 50, ir_y = 50, ir_width = 10, ir_height = 10\<rparr>],
        env_nbTexturesNeeded = \<lparr>fixed = 0, scrollable = 0, clipped = 0, full = 0\<rparr>,
        env_collectionsSwapped = False, env_newCollectionHasAnim = False,
        env_nbTexturesForImages = 0, env_maxLayerTextureCount = 0\<rparr>
       \<lparr>ir_x = 0, ir_y = 0, ir_width = 100, ir_height = 100\<rparr>
       \<lparr>fLeft = 0, fTop = 0, fRight = 100, fBottom = 100\<rparr>
       \<lparr>ir_x = 7, ir_y = 7, ir_width = 7, ir_height = 7\<rparr> 1 True)) AND kStatusDraw = 0"
    by (simp add: drawGL_def drawGL_update_def drawGL_draw_def Let_def scaleOutOfRange_def
      addDirtyAreas_def addDirtyArea_def resetLayersDirtyArea_def setupDrawing_def
      setViewport_def setLayersRenderingMode_def maxTexturesForTests_def candidateMode_def
      invalBaseFor_def clampMode_def invalAfterDraw_def GLWebViewState_new_def
      kStatusDraw_def kStatusInvoke_def ir_isEmpty_def inflate_def intersects_def
      intersect_def ir_maxX_def ir_maxY_def spec_accumulated_def spec_report_def zeroRect_def
      sk_setEmpty_def unite_def)
  have acc: "spec_accumulated ([] @ [\<lparr>ir_x = 50, ir_y = 50, ir_width = 10, ir_height = 10\<rparr>])
       = \<lparr>ir_x = 42, ir_y = 42, ir_width = 26, ir_height = 26\<rparr>"
    by (simp add: spec_accumulated_def spec_report_def zeroRect_def ir_isEmpty_def inflate_def)
  from ne ret eq fl acc
    dirty_region_reset_once [of "(GLWebViewState_new\<lparr>m_frameworkLayersInval := \<lparr>ir_x = 0, ir_y = 0, ir_width = 10, ir_height = 10\<rparr>\<rparr>)"
      "\<lparr>env_prepareTextures = False, env_imagesDirty = [], env_currentTime = 0,
        env_collectionFlags = 0, env_layersDirty = [\<lparr>ir_x = 50, ir_y = 50, ir_width = 10, ir_height = 10\<rparr>],
        env_nbTexturesNeeded = \<lparr>fixed = 0, scrollable = 0, clipped = 0, full = 0\<rparr>,
        env_collectionsSwapped = False, env_newCollectionHasAnim = False,
        env_nbTexturesForImages = 0, env_maxLayerTextureCount = 0\<rparr>"
      "\<lparr>ir_x = 0, ir_y = 0, ir_width = 100, ir_height = 100\<rparr>" "\<lparr>fLeft = 0, fTop = 0, fRight = 100, fBottom = 100\<rparr>" "\<lparr>ir_x = 7, ir_y = 7, ir_width = 7, ir_height = 7\<rparr>" 1 True
      "None :: unit option" False False False 0 0 0 0 0
      "\<lparr>fixed = 0, scrollable = 0, clipped = 0, full = 0\<rparr>" "\<lparr>ir_x = 7, ir_y = 7, ir_width = 7, ir_height = 7\<rparr>"]
  show ?thesis by simp
qed

text \<open>
  C5, as stated, fails in its last case: the out-rectangle is the outset dirty region
  itself, not its intersection with the draw rectangle. With the draw rectangle
  (0, 0, 100, 100) and one report (50, 50, 100, 100), the run returns with the draw bit
  set, the accumulated region is (42, 42, 116, 116), its outset intersects the draw
  rectangle, the out-rectangle is (41, 41, 118, 118) and the intersection is
  (41, 41, 59, 59).
\<close>

theorem drawGL_invalRect_not_clipped_counterexample:
  "is_Returned (drawGL GLWebViewState_new
       \<lparr>env_prepareTextures = True, env_imagesDirty = [], env_currentTime = 0,
        env_collectionFlags = 0, env_layersDirty = [\<lparr>ir_x = 50, ir_y = 50, ir_width = 100, ir_height = 100\<rparr>],
        env_nbTexturesNeeded = \<lparr>fixed = 0, scrollable = 0, clipped = 0, full = 0\<rparr>,
        env_collectionsSwapped = False, env_newCollectionHasAnim = False,
        env_nbTexturesForImages = 0, env_maxLayerTextureCount = 0\<rparr>
       \<lparr>ir_x = 0, ir_y = 0, ir_width = 100, ir_height = 100\<rparr>
       \<lparr>fLeft = 0, fTop = 0, fRight = 100, fBottom = 100\<rparr>
       \<lparr>ir_x = 0, ir_y = 0, ir_width = 0, ir_height = 0\<rparr> 1 True)
   \<and> dr_returnFlags (returned (drawGL GLWebViewState_new
       \<lparr>env_prepareTextures = True, env_imagesDirty = [], env_currentTime = 0,
        env_collectionFlags = 0, env_layersDirty = [\<lparr>ir_x = 50, ir_y = 50, ir_width = 100, ir_height = 100\<rparr>],
        env_nbTexturesNeeded = \<lparr>fixed = 0, scrollable = 0, clipped = 0, full = 0\<rparr>,
        env_collectionsSwapped = False, env_newCollectionHasAnim = False,
        env_nbTexturesForImages = 0, env_maxLayerTextureCount = 0\<rparr>
       \<lparr>ir_x = 0, ir_y = 0, ir_width = 100, ir_height = 100\<rparr>
       \<lparr>fLeft = 0, fTop = 0, fRight = 100, fBottom = 100\<rparr>
       \<lparr>ir_x = 0, ir_y = 0, ir_width = 0, ir_height = 0\<rparr> 1 True)) AND kStatusDraw \<noteq> 0
   \<and> spec_accumulated [\<lparr>ir_x = 50, ir_y = 50, ir_width = 100, ir_height = 100\<rparr>] = \<lparr>ir_x = 42, ir_y = 42, ir_width = 116, ir_height = 116\<rparr>
   \<and> intersects (inflate 1 (spec_accumulated [\<lparr>ir_x = 50, ir_y = 50, ir_width = 100, ir_height = 100\<rparr>])) \<lparr>ir_x = 0, ir_y = 0, ir_width = 100, ir_height = 100\<rparr>
   \<and> dr_invalRect (returned (drawGL GLWebViewState_new
       \<lparr>env_prepareTextures = True, env_imagesDirty = [], env_currentTime = 0,
        env_collectionFlags = 0, env_layersDirty = [\<lparr>ir_x = 50, ir_y = 50, ir_width = 100, ir_height = 100\<rparr>],
        env_nbTexturesNeeded = \<lparr>fixed = 0, scrollable = 0, clipped = 0, full = 0\<rparr>,
        env_collectionsSwapped = False, env_newCollectionHasAnim = False,
        env_nbTexturesForImages = 0, env_maxLayerTextureCount = 0\<rparr>
       \<lparr>ir_x = 0, ir_y = 0, ir_width = 100, ir_height = 100\<rparr>
       \<lparr>fLeft = 0, fTop = 0, fRight = 100, fBottom = 100\<rparr>
       \<lparr>ir_x = 0, ir_y = 0, ir_width = 0, ir_height = 0\<rparr> 1 True))
       = \<lparr>ir_x = 41, ir_y = 41, ir_width = 118, ir_height = 118\<rparr>
   \<and> intersect (inflate 1 (spec_accumulated [\<lparr>ir_x = 50, ir_y = 50, ir_width = 100, ir_height = 100\<rparr>])) \<lparr>ir_x = 0, ir_y = 0, ir_width = 100, ir_height = 100\<rparr>
       = \<lparr>ir_x = 41, ir_y = 41, ir_width = 59, ir_height = 59\<rparr>
   \<and> dr_invalRect (returned (drawGL GLWebViewState_new
       \<lparr>env_prepareTextures = True, env_imagesDirty = [], env_currentTime = 0,
        env_collectionFlags = 0, env_layersDirty = [\<lparr>ir_x = 50, ir_y = 50, ir_width = 100, ir_height = 100\<rparr>],
        env_nbTexturesNeeded = \<lparr>fixed = 0, scrollable = 0, clipped = 0, full = 0\<rparr>,
        env_collectionsSwapped = False, env_newCollectionHasAnim = False,
        env_nbTexturesForImages = 0, env_maxLayerTextureCount = 0\<rparr>
       \<lparr>ir_x = 0, ir_y = 0, ir_width = 100, ir_height = 100\<rparr>
       \<lparr>fLeft = 0, fTop = 0, fRight = 100, fBottom = 100\<rparr>
       \<lparr>ir_x = 0, ir_y = 0, ir_width = 0, ir_height = 0\<rparr> 1 True))
       \<noteq> intersect (inflate 1 (spec_accumulated [\<lparr>ir_x = 50, ir_y = 50, ir_width = 100, ir_height = 100\<rparr>])) \<lparr>ir_x = 0, ir_y = 0, ir_width = 100, ir_height = 100\<rparr>"
  by (simp add: drawGL_def drawGL_update_def drawGL_draw_def Let_def scaleOutOfRange_def
      addDirtyAreas_def addDirtyArea_def resetLayersDirtyArea_def setupDrawing_def
      setViewport_def setLayersRenderingMode_def maxTexturesForTests_def candidateMode_def
      invalBaseFor_def clampMode_def invalAfterDraw_def GLWebViewState_new_def
      kStatusDraw_def kStatusInvoke_def ir_isEmpty_def inflate_def intersects_def
      intersect_def ir_maxX_def ir_maxY_def spec_accumulated_def spec_report_def zeroRect_def
      sk_setEmpty_def unite_def)

text \<open>
  C5, amended. For every run of \<open>drawGL\<close> that returns with the draw bit set: if the
  dirty region accumulated during the run is empty, the out-rectangle is the zero
  rectangle; if the region outset by 1 does not intersect the draw rectangle, the
  out-rectangle is the zero rectangle as well; otherwise the out-rectangle is the region
  outset by 1, whole.
\<close>

theorem drawGL_invalRect_after_draw:
  assumes "drawGL s env rect viewport invalRect scale shouldDraw = Returned r"
    and "dr_returnFlags r AND kStatusDraw \<noteq> 0"
  shows "dr_invalRect r =
     (let d = spec_accumulated (env_imagesDirty env @ env_layersDirty env)
      in if ir_isEmpty d then zeroRect
         else if \<not> intersects (inflate 1 d) rect then zeroRect
         else inflate 1 d)"
proof -
  have "dr_invalRect r = snd (invalAfterDraw
      (spec_accumulated (env_imagesDirty env @ env_layersDirty env)) rect invalRect)"
    using assms(2) unfolding drawGL_Returned [OF assms(1)]
    by (subst drawGL_draw_invalRect) (simp add: spec_accumulated_append)
  then show ?thesis
    by (simp add: invalAfterDraw_eq Let_def)
qed

text \<open>
  A run with pending image uploads and one report (50, 50, 10, 10) inside the draw
  rectangle: the out-rectangle, (7, 7, 7, 7) on entry, becomes the report outset by 9.
\<close>

theorem drawGL_invalRect_after_draw_witness:
  "drawGL GLWebViewState_new
       \<lparr>env_prepareTextures = True, env_imagesDirty = [], env_currentTime = 0,
        env_collectionFlags = 0, env_layersDirty = [\<lparr>ir_x = 50, ir_y = 50, ir_width = 10, ir_height = 10\<rparr>],
        env_nbTexturesNeeded = \<lparr>fixed = 0, scrollable = 0, clipped = 0, full = 0\<rparr>,
        env_collectionsSwapped = False, env_newCollectionHasAnim = False,
        env_nbTexturesForImages = 0, env_maxLayerTextureCount = 0\<rparr>
       \<lparr>ir_x = 0, ir_y = 0, ir_width = 100, ir_height = 100\<rparr>
       \<lparr>fLeft = 0, fTop = 0, fRight = 100, fBottom = 100\<rparr>
       \<lparr>ir_x = 7, ir_y = 7, ir_width = 7, ir_height = 7\<rparr> 1 True = Returned (returned (drawGL GLWebViewState_new
       \<lparr>env_prepareTextures = True, env_imagesDirty = [], env_currentTime = 0,
        env_collectionFlags = 0, env_layersDirty = [\<lparr>ir_x = 50, ir_y = 50, ir_width = 10, ir_height = 10\<rparr>],
        env_nbTexturesNeeded = \<lparr>fixed = 0, scrollable = 0, clipped = 0, full = 0\<rparr>,
        env_collectionsSwapped = False, env_newCollectionHasAnim = False,
        env_nbTexturesForImages = 0, env_maxLayerTextureCount = 0\<rparr>
       \<lparr>ir_x = 0, ir_y = 0, ir_width = 100, ir_height = 100\<rparr>
       \<lparr>fLeft = 0, fTop = 0, fRight = 100, fBottom = 100\<rparr>
       \<lparr>ir_x = 7, ir_y = 7, ir_width = 7, ir_height = 7\<rparr> 1 True))
   \<and> dr_returnFlags (returned (drawGL GLWebViewState_new
       \<lparr>env_prepareTextures = True, env_imagesDirty = [], env_currentTime = 0,
        env_collectionFlags = 0, env_layersDirty = [\<lparr>ir_x = 50, ir_y = 50, ir_width = 10, ir_height = 10\<rparr>],
        env_nbTexturesNeeded = \<lparr>fixed = 0, scrollable = 0, clipped = 0, full = 0\<rparr>,
        env_collectionsSwapped = False, env_newCollectionHasAnim = False,
        env_nbTexturesForImages = 0, env_maxLayerTextureCount = 0\<rparr>
       \<lparr>ir_x = 0, ir_y = 0, ir_width = 100, ir_height = 100\<rparr>
       \<lparr>fLeft = 0, fTop = 0, fRight = 100, fBottom = 100\<rparr>
       \<lparr>ir_x = 7, ir_y = 7, ir_width = 7, ir_height = 7\<rparr> 1 True)) AND kStatusDraw \<noteq> 0
   \<and> dr_invalRect (returned (drawGL GLWebViewState_new
       \<lparr>env_prepareTextures = True, env_imagesDirty = [], env_currentTime = 0,
        env_collectionFlags = 0, env_layersDirty = [\<lparr>ir_x = 50, ir_y = 50, ir_width = 10, ir_height = 10\<rparr>],
        env_nbTexturesNeeded = \<lparr>fixed = 0, scrollable = 0, clipped = 0, full = 0\<rparr>,
        env_collectionsSwapped = False, env_newCollectionHasAnim = False,
        env_nbTexturesForImages = 0, env_maxLayerTextureCount = 0\<rparr>
       \<lparr>ir_x = 0, ir_y = 0, ir_width = 100, ir_height = 100\<rparr>
       \<lparr>fLeft = 0, fTop = 0, fRight = 100, fBottom = 100\<rparr>
       \<lparr>ir_x = 7, ir_y = 7, ir_width = 7, ir_height = 7\<rparr> 1 True))
       = \<lparr>ir_x = 41, ir_y = 41, ir_width = 28, ir_height = 28\<rparr>"
proof -
  have ret: "is_Returned (drawGL GLWebViewState_new
       \<lparr>env_prepareTextures = True, env_imagesDirty = [], env_currentTime = 0,
        env_collectionFlags = 0, env_layersDirty = [\<lparr>ir_x = 50, ir_y = 50, ir_width = 10, ir_height = 10\<rparr>],
        env_nbTexturesNeeded = \<lparr>fixed = 0, scrollable = 0, clipped = 0, full = 0\<rparr>,
        env_collectionsSwapped = False, env_newCollectionHasAnim = False,
        env_nbTexturesForImages = 0, env_maxLayerTextureCount = 0\<rparr>
       \<lparr>ir_x = 0, ir_y = 0, ir_width = 100, ir_height = 100\<rparr>
       \<lparr>fLeft = 0, fTop = 0, fRight = 100, fBottom = 100\<rparr>
       \<lparr>ir_x = 7, ir_y = 7, ir_width = 7, ir_height = 7\<rparr> 1 True)"
    by (simp add: drawGL_cases scaleOutOfRange_def)
  then have eq: "drawGL GLWebViewState_new
       \<lparr>env_prepareTextures = True, env_imagesDirty = [], env_currentTime = 0,
        env_collectionFlags = 0, env_layersDirty = [\<lparr>ir_x = 50, ir_y = 50, ir_width = 10, ir_height = 10\<rparr>],
        env_nbTexturesNeeded = \<lparr>fixed = 0, scrollable = 0, clipped = 0, full = 0\<rparr>,
        env_collectionsSwapped = False, env_newCollectionHasAnim = False,
        env_nbTexturesForImages = 0, env_maxLayerTextureCount = 0\<rparr>
       \<lparr>ir_x = 0, ir_y = 0, ir_width = 100, ir_height = 100\<rparr>
       \<lparr>fLeft = 0, fTop = 0, fRight = 100, fBottom = 100\<rparr>
       \<lparr>ir_x = 7, ir_y = 7, ir_width = 7, ir_height = 7\<rparr> 1 True
     = Returned (returned (drawGL GLWebViewState_new
       \<lparr>env_prepareTextures = True, env_imagesDirty = [], env_currentTime = 0,
        env_collectionFlags = 0, env_layersDirty = [\<lparr>ir_x = 50, ir_y = 50, ir_width = 10, ir_height = 10\<rparr>],
        env_nbTexturesNeeded = \<lparr>fixed = 0, scrollable = 0, clipped = 0, full = 0\<rparr>,
        env_collectionsSwapped = False, env_newCollectionHasAnim = False,
        env_nbTexturesForImages = 0, env_maxLayerTextureCount = 0\<rparr>
       \<lparr>ir_x = 0, ir_y = 0, ir_width = 100, ir_height = 100\<rparr>
       \<lparr>fLeft = 0, fTop = 0, fRight = 100, fBottom = 100\<rparr>
       \<lparr>ir_x = 7, ir_y = 7, ir_width = 7, ir_height = 7\<rparr> 1 True))"
    by simp
  have fl: "dr_returnFlags (returned (drawGL GLWebViewState_new
       \<lparr>env_prepareTextures = True, env_imagesDirty = [], env_currentTime = 0,
        env_collectionFlags = 0, env_layersDirty = [\<lparr>ir_x = 50, ir_y = 50, ir_width = 10, ir_height = 10\<rparr>],
        env_nbTexturesNeeded = \<lparr>fixed = 0, scrollable = 0, clipped = 0, full = 0\<rparr>,
        env_collectionsSwapped = False, env_newCollectionHasAnim = False,
        env_nbTexturesForImages = 0, env_maxLayerTextureCount = 0\<rparr>
       \<lparr>ir_x = 0, ir_y = 0, ir_width = 100, ir_height = 100\<rparr>
       \<lparr>fLeft = 0, fTop = 0, fRight = 100, fBottom = 100\<rparr>
       \<lparr>ir_x = 7, ir_y = 7, ir_width = 7, ir_height = 7\<rparr> 1 True)) AND kStatusDraw \<noteq> 0"
    by (simp add: drawGL_def drawGL_update_def drawGL_draw_def Let_def scaleOutOfRange_def
      addDirtyAreas_def addDirtyArea_def resetLayersDirtyArea_def setupDrawing_def
      setViewport_def setLayersRenderingMode_def maxTexturesForTests_def candidateMode_def
      invalBaseFor_def clampMode_def invalAfterDraw_def GLWebViewState_new_def
      kStatusDraw_def kStatusInvoke_def ir_isEmpty_def inflate_def intersects_def
      intersect_def ir_maxX_def ir_maxY_def spec_accumulated_def spec_report_def zeroRect_def
      sk_setEmpty_def unite_def)
  have val: "(let d = spec_accumulated ([] @ [\<lparr>ir_x = 50, ir_y = 50, ir_width = 10, ir_height = 10\<rparr>])
      in if ir_isEmpty d then zeroRect
         else if \<not> intersects (inflate 1 d) \<lparr>ir_x = 0, ir_y = 0, ir_width = 100, ir_height = 100\<rparr> then zeroRect
         else inflate 1 d) = \<lparr>ir_x = 41, ir_y = 41, ir_width = 28, ir_height = 28\<rparr>"
    by (simp add: spec_accumulated_def spec_report_def zeroRect_def ir_isEmpty_def inflate_def
        intersects_def ir_maxX_def ir_maxY_def Let_def)
  from eq fl val drawGL_invalRect_after_draw [OF eq fl]
  show ?thesis by simp
qed

text \<open>
  C10. For every run of \<open>drawGL\<close> that returns without the draw bit, the out-rectangle is
  not written: on return it holds the value passed in.
\<close>

theorem drawGL_invalRect_untouched:
  assumes "drawGL s env rect viewport invalRect scale shouldDraw = Returned r"
    and "dr_returnFlags r AND kStatusDraw = 0"
  shows "dr_invalRect r = invalRect"
  using assms(2) unfolding drawGL_Returned [OF assms(1)]
  by (subst drawGL_draw_invalRect) simp

text \<open>
  A run with nothing left to upload, no flag from the surface collections and no mode
  change: the out-rectangle (7, 7, 7, 7) comes back, although a region was reported.
\<close>

theorem drawGL_invalRect_untouched_witness:
  "drawGL GLWebViewState_new
       \<lparr>env_prepareTextures = False, env_imagesDirty = [], env_currentTime = 0,
        env_collectionFlags = 0, env_layersDirty = [\<lparr>ir_x = 50, ir_y = 50, ir_width = 10, ir_height = 10\<rparr>],
        env_nbTexturesNeeded = \<lparr>fixed = 0, scrollable = 0, clipped = 0, full = 0\<rparr>,
        env_collectionsSwapped = False, env_newCollectionHasAnim = False,
        env_nbTexturesForImages = 0, env_maxLayerTextureCount = 0\<rparr>
       \<lparr>ir_x = 0, ir_y = 0, ir_width = 100, ir_height = 100\<rparr>
       \<lparr>fLeft = 0, fTop = 0, fRight = 100, fBottom = 100\<rparr>
       \<lparr>ir_x = 7, ir_y = 7, ir_width = 7, ir_height = 7\<rparr> 1 True = Returned (returned (drawGL GLWebViewState_new
       \<lparr>env_prepareTextures = False, env_imagesDirty = [], env_currentTime = 0,
        env_collectionFlags = 0, env_layersDirty = [\<lparr>ir_x = 50, ir_y = 50, ir_width = 10, ir_height = 10\<rparr>],
        env_nbTexturesNeeded = \<lparr>fixed = 0, scrollable = 0, clipped = 0, full = 0\<rparr>,
        env_collectionsSwapped = False, env_newCollectionHasAnim = False,
        env_nbTexturesForImages = 0, env_maxLayerTextureCount = 0\<rparr>
       \<lparr>ir_x = 0, ir_y = 0, ir_width = 100, ir_height = 100\<rparr>
       \<lparr>fLeft = 0, fTop = 0, fRight = 100, fBottom = 100\<rparr>
       \<lparr>ir_x = 7, ir_y = 7, ir_width = 7, ir_height = 7\<rparr> 1 True))
   \<and> dr_returnFlags (returned (drawGL GLWebViewState_new
       \<lparr>env_prepareTextures = False, env_imagesDirty = [], env_currentTime = 0,
        env_collectionFlags = 0, env_layersDirty = [\<lparr>ir_x = 50, ir_y = 50, ir_width = 10, ir_height = 10\<rparr>],
        env_nbTexturesNeeded = \<lparr>fixed = 0, scrollable = 0, clipped = 0, full = 0\<rparr>,
        env_collectionsSwapped = False, env_newCollectionHasAnim = False,
        env_nbTexturesForImages = 0, env_maxLayerTextureCount = 0\<rparr>
       \<lparr>ir_x = 0, ir_y = 0, ir_width = 100, ir_height = 100\<rparr>
       \<lparr>fLeft = 0, fTop = 0, fRight = 100, fBottom = 100\<rparr>
       \<lparr>ir_x = 7, ir_y = 7, ir_width = 7, ir_height = 7\<rparr> 1 True)) AND kStatusDraw = 0
   \<and> dr_invalRect (returned (drawGL GLWebViewState_new
       \<lparr>env_prepareTextures = False, env_imagesDirty = [], env_currentTime = 0,
        env_collectionFlags = 0, env_layersDirty = [\<lparr>ir_x = 50, ir_y = 50, ir_width = 10, ir_height = 10\<rparr>],
        env_nbTexturesNeeded = \<lparr>fixed = 0, scrollable = 0, clipped = 0, full = 0\<rparr>,
        env_collectionsSwapped = False, env_newCollectionHasAnim = False,
        env_nbTexturesForImages = 0, env_maxLayerTextureCount = 0\<rparr>
       \<lparr>ir_x = 0, ir_y = 0, ir_width = 100, ir_height = 100\<rparr>
       \<lparr>fLeft = 0, fTop = 0, fRight = 100, fBottom = 100\<rparr>
       \<lparr>ir_x = 7, ir_y = 7, ir_width = 7, ir_height = 7\<rparr> 1 True)) = \<lparr>ir_x = 7, ir_y = 7, ir_width = 7, ir_height = 7\<rparr>"
proof -
  have ret: "is_Returned (drawGL GLWebViewState_new
       \<lparr>env_prepareTextures = False, env_imagesDirty = [], env_currentTime = 0,
        env_collectionFlags = 0, env_layersDirty = [\<lparr>ir_x = 50, ir_y = 50, ir_width = 10, ir_height = 10\<rparr>],
        env_nbTexturesNeeded = \<lparr>fixed = 0, scrollable = 0, clipped = 0, full = 0\<rparr>,
        env_collectionsSwapped = False, env_newCollectionHasAnim = False,
        env_nbTexturesForImages = 0, env_maxLayerTextureCount = 0\<rparr>
       \<lparr>ir_x = 0, ir_y = 0, ir_width = 100, ir_height = 100\<rparr>
       \<lparr>fLeft = 0, fTop = 0, fRight = 100, fBottom = 100\<rparr>
       \<lparr>ir_x = 7, ir_y = 7, ir_width = 7, ir_height = 7\<rparr> 1 True)"
    by (simp add: drawGL_cases scaleOutOfRange_def)
  then have eq: "drawGL GLWebViewState_new
       \<lparr>env_prepareTextures = False, env_imagesDirty = [], env_currentTime = 0,
        env_collectionFlags = 0, env_layersDirty = [\<lparr>ir_x = 50, ir_y = 50, ir_width = 10, ir_height = 10\<rparr>],
        env_nbTexturesNeeded = \<lparr>fixed = 0, scrollable = 0, clipped = 0, full = 0\<rparr>,
        env_collectionsSwapped = False, env_newCollectionHasAnim = False,
        env_nbTexturesForImages = 0, env_maxLayerTextureCount = 0\<rparr>
       \<lparr>ir_x = 0, ir_y = 0, ir_width = 100, ir_height = 100\<rparr>
       \<lparr>fLeft = 0, fTop = 0, fRight = 100, fBottom = 100\<rparr>
       \<lparr>ir_x = 7, ir_y = 7, ir_width = 7, ir_height = 7\<rparr> 1 True
     = Returned (returned (drawGL GLWebViewState_new
       \<lparr>env_prepareTextures = False, env_imagesDirty = [], env_currentTime = 0,
        env_collectionFlags = 0, env_layersDirty = [\<lparr>ir_x = 50, ir_y = 50, ir_width = 10, ir_height = 10\<rparr>],
        env_nbTexturesNeeded = \<lparr>fixed = 0, scrollable = 0, clipped = 0, full = 0\<rparr>,
        env_collectionsSwapped = False, env_newCollectionHasAnim = False,
        env_nbTexturesForImages = 0, env_maxLayerTextureCount = 0\<rparr>
       \<lparr>ir_x = 0, ir_y = 0, ir_width = 100, ir_height = 100\<rparr>
       \<lparr>fLeft = 0, fTop = 0, fRight = 100, fBottom = 100\<rparr>
       \<lparr>ir_x = 7, ir_y = 7, ir_width = 7, ir_height = 7\<rparr> 1 True))"
    by simp
  have fl: "dr_returnFlags (returned (drawGL GLWebViewState_new
       \<lparr>env_prepareTextures = False, env_imagesDirty = [], env_currentTime = 0,
        env_collectionFlags = 0, env_layersDirty = [\<lparr>ir_x = 50, ir_y = 50, ir_width = 10, ir_height = 10\<rparr>],
        env_nbTexturesNeeded = \<lparr>fixed = 0, scrollable = 0, clipped = 0, full = 0\<rparr>,
        env_collectionsSwapped = False, env_newCollectionHasAnim = False,
        env_nbTexturesForImages = 0, env_maxLayerTextureCount = 0\<rparr>
       \<lparr>ir_x = 0, ir_y = 0, ir_width = 100, ir_height = 100\<rparr>
       \<lparr>fLeft = 0, fTop = 0, fRight = 100, fBottom = 100\<rparr>
       \<lparr>ir_x = 7, ir_y = 7, ir_width = 7, ir_height = 7\<rparr> 1 True)) AND kStatusDraw = 0"
    by (simp add: drawGL_def drawGL_update_def drawGL_draw_def Let_def scaleOutOfRange_def
      addDirtyAreas_def addDirtyArea_def resetLayersDirtyArea_def setupDrawing_def
      setViewport_def setLayersRenderingMode_def maxTexturesForTests_def candidateMode_def
      invalBaseFor_def clampMode_def invalAfterDraw_def GLWebViewState_new_def
      kStatusDraw_def kStatusInvoke_def ir_isEmpty_def inflate_def intersects_def
      intersect_def ir_maxX_def ir_maxY_def spec_accumulated_def spec_report_def zeroRect_def
      sk_setEmpty_def unite_def)
  from eq fl drawGL_invalRect_untouched [OF eq fl]
  show ?thesis by simp
qed


end
